theory Spec2Isabelle
  imports Main
begin

section \<open>Python values, errors and the callback's code object\<close>

text \<open>
  The exceptions the modelled code can raise. \<open>HTTPError\<close> stands for any failure the
  HTTP client reports for a remote request.
\<close>

datatype py_error =
  IndexError | KeyError | TypeError | ValueError | AttributeError | GoldyBotError | HTTPError

text \<open>
  What \<open>Command\<close> reads of its callback: \<open>func.__name__\<close>,
  \<open>func.__code__.co_varnames\<close> (the declared parameters first, then every other local
  variable of the body), \<open>func.__code__.co_argcount\<close> and \<open>str(func)\<close>.
\<close>

record py_func =
  func_name :: string
  co_varnames :: "string list"
  co_argcount :: nat
  func_str :: string

text \<open>\<open>ApplicationCommandData\<close>: the remote handle of a slash command; only its
  \<open>"id"\<close> entry is read.\<close>

record application_command_data =
  acd_id :: string

section \<open>The Command object\<close>

text \<open>
  \<open>obj_id\<close> is the identity of the Python object: \<open>Command\<close> defines no
  \<open>__eq__\<close>, so two commands are equal exactly when they are the same object.
  \<open>Command__params_amount\<close>, \<open>Command__in_extension\<close> and \<open>Command__loaded\<close> are the
  name-mangled private attributes. A parent command is referred to by its identity.
\<close>

record command =
  obj_id :: nat
  func :: py_func
  name :: string
  description :: string
  required_roles :: "string list option"
  allow_prefix_cmd :: bool
  allow_slash_cmd :: bool
  parent_cmd :: "nat option"
  params :: "string list"
  Command__params_amount :: int
  Command__in_extension :: bool
  list_of_application_command_data :: "(string \<times> application_command_data) list option"
  Command__loaded :: bool

section \<open>Payloads, platters and the collaborators of the bot core\<close>

record user_data =
  username :: string
  discriminator :: string

text \<open>
  The two payload shapes \<open>__invoke\<close> receives. \<open>guild_id\<close> is an optional key of both
  (absent in direct messages). A message always carries \<open>content\<close> and \<open>author\<close> and
  never \<open>member.user\<close>; an interaction carries neither \<open>content\<close> nor \<open>author\<close>, and
  \<open>member.user\<close> only when it comes from a guild.
\<close>

datatype payload =
    MessageData "string option" string user_data
  | InteractionData "string option" "user_data option"

fun data_guild_id :: "payload \<Rightarrow> py_error + string" where
  "data_guild_id (MessageData g c a) = (case g of None \<Rightarrow> Inl KeyError | Some x \<Rightarrow> Inr x)"
| "data_guild_id (InteractionData g m) = (case g of None \<Rightarrow> Inl KeyError | Some x \<Rightarrow> Inr x)"

fun data_content :: "payload \<Rightarrow> py_error + string" where
  "data_content (MessageData g c a) = Inr c"
| "data_content (InteractionData g m) = Inl KeyError"

fun data_author :: "payload \<Rightarrow> py_error + user_data" where
  "data_author (MessageData g c a) = Inr a"
| "data_author (InteractionData g m) = Inl KeyError"

fun data_member_user :: "payload \<Rightarrow> py_error + user_data" where
  "data_member_user (MessageData g c a) = Inl KeyError"
| "data_member_user (InteractionData g m) = (case m of None \<Rightarrow> Inl KeyError | Some u \<Rightarrow> Inr u)"

datatype PlatterType = PREFIX_CMD | SLASH_CMD

text \<open>\<open>GoldPlatter(data, type, goldy, command)\<close>: the context object handed to the callback.\<close>

record GoldPlatter =
  platter_data :: payload
  platter_type :: PlatterType
  platter_command :: nat

text \<open>One call of a command's callback: the extension instance (for an extension method)
  and the platter.\<close>

record invocation =
  inv_func :: py_func
  inv_extension :: "nat option"
  inv_platter :: GoldPlatter

record guild =
  prefix :: string

datatype http_request =
    CreateGuildApplicationCommand string string string string
  | DeleteGuildApplicationCommand string string string

text \<open>
  The state the command code reads and writes.
  \<^item> \<open>commands_cache\<close>: the module-level list of \<open>(name, command)\<close> pairs.
  \<^item> \<open>extensions_cache\<close>: the list of \<open>(code name, extension)\<close> pairs; \<open>extension_commands\<close>
    records which command each extension was told to add.
  \<^item> \<open>listeners\<close>: the event dispatcher's subscriptions in registration order, each an event
    name and the callback object; a command owns two callback objects, told apart by the
    platter type their closure binds.
  \<^item> \<open>http_log\<close>: the remote requests issued so far; \<open>http_create\<close> and \<open>http_delete\<close>
    are the remote's answers, which may depend on the requests before.
  \<^item> \<open>invocations\<close>: the callback calls made so far.
  \<^item> \<open>config_allowed_guilds\<close>: what \<open>config.get("goldy", "allowed_guilds")\<close> returns,
    \<open>None\<close> when the key is not found, else the dictionary in its key order.
  \<^item> \<open>guilds_allowed_guilds\<close>, \<open>get_guild\<close>: the attribute and the lookup of
    \<open>goldy.guilds\<close>; \<open>application_data\<close>: the \<open>"id"\<close> of \<open>goldy.application_data\<close>,
    \<open>None\<close> before it has been fetched.
  \<^item> \<open>next_id\<close>: the identity the next constructed object gets.
\<close>

record world =
  commands_cache :: "(string \<times> nat) list"
  extensions_cache :: "(string \<times> nat) list"
  extension_commands :: "(nat \<times> nat) list"
  listeners :: "(string \<times> nat \<times> PlatterType) list"
  http_log :: "http_request list"
  http_create :: "http_request list \<Rightarrow> http_request \<Rightarrow> py_error + application_command_data"
  http_delete :: "http_request list \<Rightarrow> http_request \<Rightarrow> py_error option"
  invocations :: "invocation list"
  config_allowed_guilds :: "(string \<times> string) list option"
  guilds_allowed_guilds :: "(string \<times> string) list"
  get_guild :: "string \<Rightarrow> guild option"
  application_data :: "string option"
  next_id :: nat

section \<open>Construction\<close>

text \<open>
  \<open>Command.__init__\<close>. \<open>self.params[0]\<close> raises \<open>IndexError\<close> on a callback without
  local variables; nothing has been appended to \<open>commands_cache\<close> by then.
\<close>

definition Command_init ::
  "py_func \<Rightarrow> string option \<Rightarrow> string option \<Rightarrow> string list option \<Rightarrow> bool \<Rightarrow> bool \<Rightarrow>
   nat option \<Rightarrow> world \<Rightarrow> (py_error + command) \<times> world" where
  "Command_init f name0 description0 roles0 prefix0 slash0 parent0 w =
     (let name1 = (case name0 of None \<Rightarrow> func_name f | Some n \<Rightarrow> n);
          description1 = (case description0 of
              None \<Rightarrow> ''This command has no description. Sorry about that.''
            | Some d \<Rightarrow> d)
      in case co_varnames f of
           [] \<Rightarrow> (Inl IndexError, w)
         | p # ps \<Rightarrow>
             (let self = \<lparr> obj_id = next_id w, func = f, name = name1,
                           description = description1, required_roles = roles0,
                           allow_prefix_cmd = prefix0, allow_slash_cmd = slash0,
                           parent_cmd = parent0,
                           params = (if p = ''self'' then ps else p # ps),
                           Command__params_amount =
                             (if p = ''self'' then int (co_argcount f) - 1
                              else int (co_argcount f)),
                           Command__in_extension = (p = ''self''),
                           list_of_application_command_data = None,
                           Command__loaded = False \<rparr>
              in (Inr self,
                  w\<lparr> commands_cache := commands_cache w @ [(name1, obj_id self)],
                     next_id := Suc (next_id w) \<rparr>)))"

definition in_extension :: "command \<Rightarrow> bool" where
  "in_extension self = (if Command__in_extension self then True else False)"

definition is_child :: "command \<Rightarrow> bool" where
  "is_child self = (if parent_cmd self = None then False else True)"

definition loaded :: "command \<Rightarrow> bool" where
  "loaded self = Command__loaded self"

text \<open>\<open>any_args_missing\<close>: the slice \<open>self.params[1:]\<close> never raises.\<close>

definition any_args_missing :: "command \<Rightarrow> 'a list \<Rightarrow> bool" where
  "any_args_missing self command_executers_args =
     (if length command_executers_args = length (drop 1 (params self)) then True else False)"

section \<open>Registries and the extension of a command\<close>

text \<open>
  Modelled from the spec: \<open>utils.cache_lookup\<close>, whose source is not among the files. The
  spec describes it as a linear lookup by name that returns the first matching pair, and
  no match otherwise.
\<close>

definition cache_lookup :: "string \<Rightarrow> (string \<times> 'a) list \<Rightarrow> (string \<times> 'a) option" where
  "cache_lookup item cache = find (\<lambda>entry. fst entry = item) cache"

text \<open>\<open>str.split(sep)\<close> with an explicit one-character separator.\<close>

fun split_str :: "char \<Rightarrow> string \<Rightarrow> string list" where
  "split_str sep [] = [[]]"
| "split_str sep (c # cs) =
     (if c = sep then [] # split_str sep cs
      else (case split_str sep cs of
              [] \<Rightarrow> [[c]]
            | x # xs \<Rightarrow> (c # x) # xs))"

text \<open>\<open>extension_name\<close>: \<open>str(self.func).split(" ")[1].split(".")[0]\<close>; the index
  \<open>[1]\<close> raises \<open>IndexError\<close> when the text has no space.\<close>

definition extension_name :: "command \<Rightarrow> py_error + string option" where
  "extension_name self =
     (if in_extension self then
        (case drop 1 (split_str (CHR '' '') (func_str (func self))) of
           [] \<Rightarrow> Inl IndexError
         | s # rest \<Rightarrow>
             (case split_str (CHR ''.'') s of
                [] \<Rightarrow> Inl IndexError
              | t # rest' \<Rightarrow> Inr (Some t)))
      else Inr None)"

text \<open>\<open>extension\<close>: indexing the result of a lookup that found nothing
  (\<open>None[1]\<close>) raises \<open>TypeError\<close>.\<close>

definition extension :: "command \<Rightarrow> world \<Rightarrow> py_error + nat option" where
  "extension self w =
     (if in_extension self then
        (case extension_name self of
           Inl e \<Rightarrow> Inl e
         | Inr None \<Rightarrow> Inl TypeError
         | Inr (Some n) \<Rightarrow>
             (case cache_lookup n (extensions_cache w) of
                None \<Rightarrow> Inl TypeError
              | Some entry \<Rightarrow> Inr (Some (snd entry))))
      else Inr None)"

text \<open>
  Modelled from the spec: \<open>Extension.add_command\<close>, whose source is not among the files. The
  spec has the extension add the command to the list it tracks.
\<close>

definition add_command :: "nat \<Rightarrow> command \<Rightarrow> world \<Rightarrow> world" where
  "add_command ext self w = w\<lparr> extension_commands := extension_commands w @ [(ext, obj_id self)] \<rparr>"

section \<open>Configuration\<close>

text \<open>
  \<open>GoldyConfig.allowed_guilds\<close>, on the value \<open>self.get("goldy", "allowed_guilds")\<close>
  returned. A dictionary is the list of its items in key order. The template key is deleted
  from the dictionary object itself, so the second component is the dictionary afterwards.
\<close>

definition allowed_guilds ::
  "(string \<times> string) list option \<Rightarrow>
   (py_error + (string \<times> string) list) \<times> (string \<times> string) list option" where
  "allowed_guilds data0 =
     (case data0 of
        None \<Rightarrow> (Inl GoldyBotError, None)
      | Some d \<Rightarrow>
          (let d1 = (if ''{guild_id_here}'' \<in> set (map fst d)
                     then filter (\<lambda>kv. fst kv \<noteq> ''{guild_id_here}'') d else d)
           in (Inr d1, Some d1)))"

section \<open>The event dispatcher\<close>

text \<open>
  The dispatcher of the gateway client keeps, for each event name, the list of callbacks:
  \<open>add_listener\<close> appends, \<open>remove_listener\<close> removes the first equal callback and raises
  \<open>ValueError\<close> when there is none.
\<close>

definition add_listener :: "nat \<times> PlatterType \<Rightarrow> string \<Rightarrow> world \<Rightarrow> world" where
  "add_listener callback event_name w = w\<lparr> listeners := listeners w @ [(event_name, callback)] \<rparr>"

definition remove_listener ::
  "nat \<times> PlatterType \<Rightarrow> string \<Rightarrow> world \<Rightarrow> (py_error + unit) \<times> world" where
  "remove_listener callback event_name w =
     (if (event_name, callback) \<in> set (listeners w)
      then (Inr (), w\<lparr> listeners := remove1 (event_name, callback) (listeners w) \<rparr>)
      else (Inl ValueError, w))"

definition Command__slash_callback :: "command \<Rightarrow> nat \<times> PlatterType" where
  "Command__slash_callback self = (obj_id self, SLASH_CMD)"

definition Command__normal_callback :: "command \<Rightarrow> nat \<times> PlatterType" where
  "Command__normal_callback self = (obj_id self, PREFIX_CMD)"

text \<open>The subscriptions of one command, over all event names.\<close>

definition subscriptions :: "world \<Rightarrow> command \<Rightarrow> (string \<times> nat \<times> PlatterType) list" where
  "subscriptions w self = filter (\<lambda>l. fst (snd l) = obj_id self) (listeners w)"

section \<open>Invocation\<close>

text \<open>
  The call of the callback. Its body is user code outside the model: the call is recorded
  in \<open>invocations\<close>. An extension method receives the extension instance first.
\<close>

definition call_func :: "command \<Rightarrow> GoldPlatter \<Rightarrow> world \<Rightarrow> (py_error + unit) \<times> world" where
  "call_func self gold_plater w =
     (if in_extension self then
        (case extension self w of
           Inl e \<Rightarrow> (Inl e, w)
         | Inr ext \<Rightarrow>
             (Inr (), w\<lparr> invocations := invocations w @
                [\<lparr> inv_func = func self, inv_extension = ext, inv_platter = gold_plater \<rparr>] \<rparr>))
      else
        (Inr (), w\<lparr> invocations := invocations w @
           [\<lparr> inv_func = func self, inv_extension = None, inv_platter = gold_plater \<rparr>] \<rparr>))"

text \<open>
  \<open>Command.__invoke\<close>. \<open>data["guild_id"]\<close> is evaluated before the configuration is read.
  \<open>guild.prefix\<close> on a guild that \<open>get_guild\<close> did not find raises \<open>AttributeError\<close>. The
  log lines read \<open>data['author']\<close> and \<open>data['member']['user']\<close>.
\<close>

definition Command__invoke ::
  "command \<Rightarrow> payload \<Rightarrow> PlatterType \<Rightarrow> world \<Rightarrow> (py_error + unit) \<times> world" where
  "Command__invoke self data type w =
     (case data_guild_id data of
        Inl e \<Rightarrow> (Inl e, w)
      | Inr gid \<Rightarrow>
          (case allowed_guilds (config_allowed_guilds w) of
             (Inl e, cfg) \<Rightarrow> (Inl e, w\<lparr> config_allowed_guilds := cfg \<rparr>)
           | (Inr ag, cfg) \<Rightarrow>
               (let w1 = w\<lparr> config_allowed_guilds := cfg \<rparr> in
                if gid \<in> set (map fst ag) then
                  (let gold_plater = \<lparr> platter_data = data, platter_type = type,
                                        platter_command = obj_id self \<rparr>
                   in case get_guild w1 gid of
                        None \<Rightarrow> (Inl AttributeError, w1)
                      | Some g \<Rightarrow>
                          (case type of
                             PREFIX_CMD \<Rightarrow>
                               (case data_content data of
                                  Inl e \<Rightarrow> (Inl e, w1)
                                | Inr content \<Rightarrow>
                                    if content = prefix g @ name self then
                                      (case data_author data of
                                         Inl e \<Rightarrow> (Inl e, w1)
                                       | Inr a \<Rightarrow> call_func self gold_plater w1)
                                    else (Inr (), w1))
                           | SLASH_CMD \<Rightarrow>
                               (case data_member_user data of
                                  Inl e \<Rightarrow> (Inl e, w1)
                                | Inr u \<Rightarrow> call_func self gold_plater w1)))
                else (Inr (), w1))))"

section \<open>Registration with the remote and with the dispatcher\<close>

text \<open>
  The loop of \<open>create_slash\<close> over \<open>goldy.guilds.allowed_guilds\<close>. The arguments of the
  request are evaluated first: \<open>application_data["id"]\<close> raises \<open>TypeError\<close> while the
  application data is \<open>None\<close>. A request that the remote refuses has been issued all the same.
\<close>

fun create_slash_loop ::
  "command \<Rightarrow> (string \<times> string) list \<Rightarrow> (string \<times> application_command_data) list \<Rightarrow> world \<Rightarrow>
   (py_error + (string \<times> application_command_data) list) \<times> world" where
  "create_slash_loop self [] acc w = (Inr acc, w)"
| "create_slash_loop self (guild # rest) acc w =
     (case application_data w of
        None \<Rightarrow> (Inl TypeError, w)
      | Some app \<Rightarrow>
          (let req = CreateGuildApplicationCommand app (fst guild) (name self) (description self);
               w1 = w\<lparr> http_log := http_log w @ [req] \<rparr>
           in case http_create w (http_log w) req of
                Inl e \<Rightarrow> (Inl e, w1)
              | Inr d \<Rightarrow> create_slash_loop self rest (acc @ [(fst guild, d)]) w1))"

text \<open>\<open>create_slash\<close>: the handle list is stored on the command only after the loop and the
  subscription.\<close>

definition create_slash ::
  "command \<Rightarrow> world \<Rightarrow>
   (py_error + (string \<times> application_command_data) list) \<times> command \<times> world" where
  "create_slash self w =
     (case create_slash_loop self (guilds_allowed_guilds w) [] w of
        (Inl e, w1) \<Rightarrow> (Inl e, self, w1)
      | (Inr l, w1) \<Rightarrow>
          (Inr l, self\<lparr> list_of_application_command_data := Some l \<rparr>,
           add_listener (Command__slash_callback self) ''INTERACTION_CREATE'' w1))"

fun remove_slash_loop ::
  "(string \<times> application_command_data) list \<Rightarrow> world \<Rightarrow> (py_error + unit) \<times> world" where
  "remove_slash_loop [] w = (Inr (), w)"
| "remove_slash_loop (slash_command # rest) w =
     (case application_data w of
        None \<Rightarrow> (Inl TypeError, w)
      | Some app \<Rightarrow>
          (let req = DeleteGuildApplicationCommand app (fst slash_command)
                       (acd_id (snd slash_command));
               w1 = w\<lparr> http_log := http_log w @ [req] \<rparr>
           in case http_delete w (http_log w) req of
                Some e \<Rightarrow> (Inl e, w1)
              | None \<Rightarrow> remove_slash_loop rest w1))"

text \<open>\<open>remove_slash\<close>: iterating over \<open>None\<close> raises \<open>TypeError\<close>.\<close>

definition remove_slash :: "command \<Rightarrow> world \<Rightarrow> (py_error + unit) \<times> command \<times> world" where
  "remove_slash self w =
     (case list_of_application_command_data self of
        None \<Rightarrow> (Inl TypeError, self, w)
      | Some l \<Rightarrow>
          (case remove_slash_loop l w of
             (Inl e, w1) \<Rightarrow> (Inl e, self, w1)
           | (Inr u, w1) \<Rightarrow>
               (case remove_listener (Command__slash_callback self) ''INTERACTION_CREATE'' w1 of
                  (Inl e, w2) \<Rightarrow> (Inl e, self, w2)
                | (Inr u', w2) \<Rightarrow> (Inr (), self, w2))))"

definition create_normal :: "command \<Rightarrow> world \<Rightarrow> world" where
  "create_normal self w = add_listener (Command__normal_callback self) ''MESSAGE_CREATE'' w"

definition remove_normal :: "command \<Rightarrow> world \<Rightarrow> (py_error + unit) \<times> world" where
  "remove_normal self w = remove_listener (Command__normal_callback self) ''MESSAGE_CREATE'' w"

section \<open>Lifecycle\<close>

definition load :: "command \<Rightarrow> world \<Rightarrow> (py_error + unit) \<times> command \<times> world" where
  "load self w =
     (case (if allow_slash_cmd self then create_slash self w else (Inr [], self, w)) of
        (Inl e, self1, w1) \<Rightarrow> (Inl e, self1, w1)
      | (Inr l, self1, w1) \<Rightarrow>
          (let w2 = (if allow_prefix_cmd self1 then create_normal self1 w1 else w1)
           in case extension self1 w2 of
                Inl e \<Rightarrow> (Inl e, self1, w2)
              | Inr None \<Rightarrow> (Inr (), self1\<lparr> Command__loaded := True \<rparr>, w2)
              | Inr (Some ext) \<Rightarrow>
                  (Inr (), self1\<lparr> Command__loaded := True \<rparr>, add_command ext self1 w2)))"

definition unload :: "command \<Rightarrow> world \<Rightarrow> (py_error + unit) \<times> command \<times> world" where
  "unload self w =
     (case (if allow_slash_cmd self then remove_slash self w else (Inr (), self, w)) of
        (Inl e, self1, w1) \<Rightarrow> (Inl e, self1, w1)
      | (Inr u, self1, w1) \<Rightarrow>
          (case (if allow_prefix_cmd self1 then remove_normal self1 w1 else (Inr (), w1)) of
             (Inl e, w2) \<Rightarrow> (Inl e, self1, w2)
           | (Inr u', w2) \<Rightarrow> (Inr (), self1\<lparr> Command__loaded := False \<rparr>, w2)))"

text \<open>\<open>delete\<close>: \<open>list.remove\<close> takes out the first equal element and raises
  \<open>ValueError\<close> when there is none.\<close>

definition delete :: "command \<Rightarrow> world \<Rightarrow> (py_error + unit) \<times> command \<times> world" where
  "delete self w =
     (case unload self w of
        (Inl e, self1, w1) \<Rightarrow> (Inl e, self1, w1)
      | (Inr u, self1, w1) \<Rightarrow>
          (if (name self1, obj_id self1) \<in> set (commands_cache w1)
           then (Inr (), self1,
                 w1\<lparr> commands_cache := remove1 (name self1, obj_id self1) (commands_cache w1) \<rparr>)
           else (Inl ValueError, self1, w1)))"

section \<open>Example callbacks and an example bot state\<close>

text \<open>
  \<open>ping_func\<close> is a plain coroutine \<open>async def ping(platter)\<close>; \<open>hello_func\<close> is the
  method \<open>async def hello(self, platter)\<close> of an extension \<open>Greeter\<close>, with one local
  variable \<open>reply\<close> in its body. \<open>world0\<close> is a bot with one allowed guild, whose
  configuration file still holds the template entry.
\<close>

definition ping_func :: py_func where
  "ping_func = \<lparr> func_name = ''ping'', co_varnames = [''platter''], co_argcount = 1,
                 func_str = ''<function ping at 0x7f3a>'' \<rparr>"

definition hello_func :: py_func where
  "hello_func = \<lparr> func_name = ''hello'', co_varnames = [''self'', ''platter'', ''reply''],
                  co_argcount = 2, func_str = ''<function Greeter.hello at 0x7f3b>'' \<rparr>"

definition world0 :: world where
  "world0 = \<lparr> commands_cache = [], extensions_cache = [(''Greeter'', 0)],
              extension_commands = [], listeners = [], http_log = [],
              http_create = (\<lambda>log req. case req of
                   CreateGuildApplicationCommand app g n d \<Rightarrow> Inr \<lparr> acd_id = g @ ''/'' @ n \<rparr>
                 | DeleteGuildApplicationCommand app g c \<Rightarrow> Inl HTTPError),
              http_delete = (\<lambda>log req. None),
              invocations = [],
              config_allowed_guilds =
                Some [(''{guild_id_here}'', ''template''), (''111'', ''test_server'')],
              guilds_allowed_guilds = [(''111'', ''test_server'')],
              get_guild = (\<lambda>g. if g = ''111'' then Some \<lparr> prefix = ''!'' \<rparr> else None),
              application_data = Some ''app'',
              next_id = 1 \<rparr>"

text \<open>The command \<open>Command(goldy, ping, allow_slash_cmd=False)\<close> as constructed in
  \<open>world0\<close>.\<close>

definition ping_cmd :: command where
  "ping_cmd = \<lparr> obj_id = 1, func = ping_func, name = ''ping'',
       description = ''This command has no description. Sorry about that.'',
       required_roles = None, allow_prefix_cmd = True, allow_slash_cmd = False,
       parent_cmd = None, params = [''platter''], Command__params_amount = 1,
       Command__in_extension = False, list_of_application_command_data = None,
       Command__loaded = False \<rparr>"

text \<open>The state after \<open>ping_cmd\<close> has been constructed, and after it has been loaded.\<close>

definition world_ping :: world where
  "world_ping = world0\<lparr> commands_cache := [(''ping'', 1)], next_id := 2 \<rparr>"

definition ping_loaded :: command where
  "ping_loaded = ping_cmd\<lparr> Command__loaded := True \<rparr>"

definition world_ping_loaded :: world where
  "world_ping_loaded = world_ping\<lparr> listeners := [(''MESSAGE_CREATE'', 1, PREFIX_CMD)] \<rparr>"

text \<open>The command \<open>Command(goldy, Greeter.hello)\<close> as constructed in \<open>world0\<close>, with both
  invocation paths allowed, and the command and the state after it has been loaded.\<close>

definition hello_cmd :: command where
  "hello_cmd = \<lparr> obj_id = 1, func = hello_func, name = ''hello'',
       description = ''This command has no description. Sorry about that.'',
       required_roles = None, allow_prefix_cmd = True, allow_slash_cmd = True,
       parent_cmd = None, params = [''platter'', ''reply''], Command__params_amount = 1,
       Command__in_extension = True, list_of_application_command_data = None,
       Command__loaded = False \<rparr>"

definition world_hello :: world where
  "world_hello = world0\<lparr> commands_cache := [(''hello'', 1)], next_id := 2 \<rparr>"

definition hello_loaded :: command where
  "hello_loaded = hello_cmd\<lparr>
       list_of_application_command_data := Some [(''111'', \<lparr> acd_id = ''111/hello'' \<rparr>)],
       Command__loaded := True \<rparr>"

definition world_hello_loaded :: world where
  "world_hello_loaded = world_hello\<lparr>
       extension_commands := [(0, 1)],
       listeners := [(''INTERACTION_CREATE'', 1, SLASH_CMD), (''MESSAGE_CREATE'', 1, PREFIX_CMD)],
       http_log := [CreateGuildApplicationCommand ''app'' ''111'' ''hello''
                      ''This command has no description. Sorry about that.''] \<rparr>"

text \<open>A second command of the same name, constructed after \<open>ping_cmd\<close>, and the state
  then.\<close>

definition ping_twin :: command where
  "ping_twin = ping_cmd\<lparr> obj_id := 2 \<rparr>"

definition world_twins :: world where
  "world_twins = world_ping\<lparr> commands_cache := [(''ping'', 1), (''ping'', 2)], next_id := 3 \<rparr>"

text \<open>The author of the example messages.\<close>

definition someone :: user_data where
  "someone = \<lparr> username = ''goldy'', discriminator = ''0001'' \<rparr>"

section \<open>Facts about the examples\<close>

lemma hello_func_fields:
  "func_name hello_func = ''hello''"
  "co_varnames hello_func = [''self'', ''platter'', ''reply'']"
  "co_argcount hello_func = 2"
  "func_str hello_func = ''<function Greeter.hello at 0x7f3b>''"
  by (simp_all add: hello_func_def)

lemma ping_func_fields:
  "func_name ping_func = ''ping''"
  "co_varnames ping_func = [''platter'']"
  "co_argcount ping_func = 1"
  "func_str ping_func = ''<function ping at 0x7f3a>''"
  by (simp_all add: ping_func_def)

lemma world0_fields:
  "commands_cache world0 = []"
  "extensions_cache world0 = [(''Greeter'', 0)]"
  "extension_commands world0 = []"
  "listeners world0 = []"
  "http_log world0 = []"
  "invocations world0 = []"
  "config_allowed_guilds world0 =
     Some [(''{guild_id_here}'', ''template''), (''111'', ''test_server'')]"
  "guilds_allowed_guilds world0 = [(''111'', ''test_server'')]"
  "application_data world0 = Some ''app''"
  "next_id world0 = 1"
  "http_delete world0 l r = None"
  "http_create world0 l (CreateGuildApplicationCommand a g n d) = Inr \<lparr> acd_id = g @ ''/'' @ n \<rparr>"
  "get_guild world0 ''111'' = Some \<lparr> prefix = ''!'' \<rparr>"
  by (simp_all add: world0_def)

lemma ping_cmd_init:
  "Command_init ping_func None None None True False None world0 = (Inr ping_cmd, world_ping)"
  by (simp add: Command_init_def ping_cmd_def world_ping_def ping_func_fields world0_fields
        Let_def)


section \<open>What the loops and the lifecycle steps change\<close>

text \<open>The request loops touch nothing but the request log.\<close>

lemma create_slash_loop_world:
  "create_slash_loop self gs acc w = (r, w1) \<Longrightarrow> \<exists>l. w1 = w\<lparr> http_log := l \<rparr>"
proof (induction gs arbitrary: acc w)
  case Nil
  then have "w1 = w\<lparr> http_log := http_log w \<rparr>" by simp
  then show ?case ..
next
  case (Cons guild rest)
  show ?case
  proof (cases "application_data w")
    case None
    with Cons.prems have "w1 = w\<lparr> http_log := http_log w \<rparr>" by simp
    then show ?thesis ..
  next
    case (Some app)
    let ?req = "CreateGuildApplicationCommand app (fst guild) (name self) (description self)"
    let ?w = "w\<lparr> http_log := http_log w @ [?req] \<rparr>"
    show ?thesis
    proof (cases "http_create w (http_log w) ?req")
      case (Inl e)
      with Cons.prems Some have "w1 = ?w" by (simp add: Let_def)
      then show ?thesis ..
    next
      case (Inr d)
      with Cons.prems Some
      have "create_slash_loop self rest (acc @ [(fst guild, d)]) ?w = (r, w1)"
        by (simp add: Let_def)
      from Cons.IH [OF this] obtain l where "w1 = ?w\<lparr> http_log := l \<rparr>" ..
      then have "w1 = w\<lparr> http_log := l \<rparr>" by simp
      then show ?thesis ..
    qed
  qed
qed

lemma create_slash_loop_handles:
  "create_slash_loop self gs acc w = (Inr l, w1) \<Longrightarrow>
   map fst l = map fst acc @ map fst gs"
proof (induction gs arbitrary: acc w)
  case Nil
  then show ?case by simp
next
  case (Cons guild rest)
  then show ?case
    by (auto simp add: Let_def split: option.splits sum.splits)
qed

lemma remove_slash_loop_world:
  "remove_slash_loop hs w = (r, w1) \<Longrightarrow> \<exists>l. w1 = w\<lparr> http_log := l \<rparr>"
proof (induction hs arbitrary: w)
  case Nil
  then have "w1 = w\<lparr> http_log := http_log w \<rparr>" by simp
  then show ?case ..
next
  case (Cons h rest)
  show ?case
  proof (cases "application_data w")
    case None
    with Cons.prems have "w1 = w\<lparr> http_log := http_log w \<rparr>" by simp
    then show ?thesis ..
  next
    case (Some app)
    let ?req = "DeleteGuildApplicationCommand app (fst h) (acd_id (snd h))"
    let ?w = "w\<lparr> http_log := http_log w @ [?req] \<rparr>"
    show ?thesis
    proof (cases "http_delete w (http_log w) ?req")
      case (Some e)
      with Cons.prems \<open>application_data w = Some app\<close> have "w1 = ?w" by (simp add: Let_def)
      then show ?thesis ..
    next
      case None
      with Cons.prems Some
      have "remove_slash_loop rest ?w = (r, w1)"
        by (simp add: Let_def)
      from Cons.IH [OF this] obtain l where "w1 = ?w\<lparr> http_log := l \<rparr>" ..
      then have "w1 = w\<lparr> http_log := l \<rparr>" by simp
      then show ?thesis ..
    qed
  qed
qed

lemma remove_slash_loop_log:
  "remove_slash_loop hs w = (Inr u, w1) \<Longrightarrow> application_data w = Some app \<Longrightarrow>
   http_log w1 = http_log w @
     map (\<lambda>h. DeleteGuildApplicationCommand app (fst h) (acd_id (snd h))) hs"
proof (induction hs arbitrary: w)
  case Nil
  then show ?case by simp
next
  case (Cons h rest)
  let ?req = "DeleteGuildApplicationCommand app (fst h) (acd_id (snd h))"
  let ?w = "w\<lparr> http_log := http_log w @ [?req] \<rparr>"
  from Cons.prems have step: "remove_slash_loop rest ?w = (Inr u, w1)"
    by (auto simp add: Let_def split: option.splits)
  have "application_data ?w = Some app" using Cons.prems by simp
  from Cons.IH [OF step this] show ?case by simp
qed

lemma load_effects:
  assumes "load self w = (r, self1, w1)"
  shows "obj_id self1 = obj_id self"
    and "name self1 = name self"
    and "allow_slash_cmd self1 = allow_slash_cmd self"
    and "allow_prefix_cmd self1 = allow_prefix_cmd self"
    and "application_data w1 = application_data w"
    and "commands_cache w1 = commands_cache w"
    and "http_delete w1 = http_delete w"
    and "\<not> allow_slash_cmd self \<Longrightarrow> http_log w1 = http_log w"
    and "\<not> allow_slash_cmd self \<Longrightarrow>
           listeners w1 = listeners w @
             (if allow_prefix_cmd self then [(''MESSAGE_CREATE'', Command__normal_callback self)]
              else [])"
    and "r = Inr () \<Longrightarrow>
           listeners w1 = listeners w @
             (if allow_slash_cmd self then [(''INTERACTION_CREATE'', Command__slash_callback self)]
              else []) @
             (if allow_prefix_cmd self then [(''MESSAGE_CREATE'', Command__normal_callback self)]
              else [])"
    and "r = Inr () \<Longrightarrow> allow_slash_cmd self \<Longrightarrow>
           \<exists>l. list_of_application_command_data self1 = Some l \<and>
               map fst l = map fst (guilds_allowed_guilds w)"
    and "r = Inr () \<Longrightarrow> loaded self1"
proof -
  show "obj_id self1 = obj_id self" "name self1 = name self" 
    "allow_slash_cmd self1 = allow_slash_cmd self"
    "allow_prefix_cmd self1 = allow_prefix_cmd self"
    using assms
    by (auto simp add: load_def create_slash_def Let_def
             split: if_splits prod.splits sum.splits option.splits)
  show "application_data w1 = application_data w" "commands_cache w1 = commands_cache w"
    "http_delete w1 = http_delete w"
    using assms
    by (auto simp add: load_def create_slash_def create_normal_def add_listener_def
                       add_command_def Let_def
             dest!: create_slash_loop_world
             split: if_splits prod.splits sum.splits option.splits)
  show "\<not> allow_slash_cmd self \<Longrightarrow> http_log w1 = http_log w"
    using assms
    by (auto simp add: load_def create_normal_def add_listener_def add_command_def Let_def
             split: if_splits prod.splits sum.splits option.splits)
  show "\<not> allow_slash_cmd self \<Longrightarrow>
           listeners w1 = listeners w @
             (if allow_prefix_cmd self then [(''MESSAGE_CREATE'', Command__normal_callback self)]
              else [])"
    using assms
    by (auto simp add: load_def create_normal_def add_listener_def add_command_def Let_def
             split: if_splits prod.splits sum.splits option.splits)
  show "r = Inr () \<Longrightarrow>
           listeners w1 = listeners w @
             (if allow_slash_cmd self then [(''INTERACTION_CREATE'', Command__slash_callback self)]
              else []) @
             (if allow_prefix_cmd self then [(''MESSAGE_CREATE'', Command__normal_callback self)]
              else [])"
    using assms
    by (auto simp add: load_def create_slash_def create_normal_def add_listener_def
                       add_command_def Let_def Command__normal_callback_def
                       Command__slash_callback_def
             dest!: create_slash_loop_world
             split: if_splits prod.splits sum.splits option.splits)
  show "r = Inr () \<Longrightarrow> allow_slash_cmd self \<Longrightarrow>
           \<exists>l. list_of_application_command_data self1 = Some l \<and>
               map fst l = map fst (guilds_allowed_guilds w)"
    using assms
    by (auto simp add: load_def create_slash_def Let_def
             dest!: create_slash_loop_handles
             split: if_splits prod.splits sum.splits option.splits)
  show "r = Inr () \<Longrightarrow> loaded self1"
    using assms
    by (auto simp add: load_def loaded_def Let_def
             split: if_splits prod.splits sum.splits option.splits)
qed

text \<open>Removing a listener takes one subscription away; unloading leaves the command cache,
  the name and the identity alone.\<close>

lemma length_filter_remove1:
  "x \<in> set xs \<Longrightarrow> P x \<Longrightarrow> Suc (length (filter P (remove1 x xs))) = length (filter P xs)"
  by (induction xs) auto

lemma remove_listener_effects:
  assumes "remove_listener (obj_id self, t) ev w = (Inr u, w1)"
  shows "Suc (length (subscriptions w1 self)) = length (subscriptions w self)"
  using assms
  by (auto simp add: remove_listener_def subscriptions_def length_filter_remove1
           split: if_splits)

lemma remove_listener_frame:
  "remove_listener cb ev w = (r, w1) \<Longrightarrow>
   commands_cache w1 = commands_cache w \<and> http_log w1 = http_log w"
  by (auto simp add: remove_listener_def split: if_splits)

lemma remove_slash_frame:
  assumes "remove_slash self w = (r, self1, w1)"
  shows "self1 = self" and "commands_cache w1 = commands_cache w"
proof -
  show "self1 = self"
    using assms by (simp add: remove_slash_def split: option.splits prod.splits sum.splits)
  show "commands_cache w1 = commands_cache w"
  proof (cases "list_of_application_command_data self")
    case None
    with assms show ?thesis by (simp add: remove_slash_def)
  next
    case (Some l)
    obtain ra wa where loop: "remove_slash_loop l w = (ra, wa)"
      by (cases "remove_slash_loop l w") auto
    from remove_slash_loop_world [OF loop] obtain lg where "wa = w\<lparr> http_log := lg \<rparr>" ..
    then have wa: "commands_cache wa = commands_cache w" by simp
    show ?thesis
    proof (cases ra)
      case (Inl e)
      with assms Some loop wa show ?thesis by (simp add: remove_slash_def)
    next
      case (Inr ub)
      obtain rb wb where rem:
        "remove_listener (Command__slash_callback self) ''INTERACTION_CREATE'' wa = (rb, wb)"
        by (cases "remove_listener (Command__slash_callback self) ''INTERACTION_CREATE'' wa") auto
      from remove_listener_frame [OF rem] have "commands_cache wb = commands_cache wa" ..
      moreover from assms Some loop Inr rem have "w1 = wb"
        by (simp add: remove_slash_def split: sum.splits)
      ultimately show ?thesis using wa by simp
    qed
  qed
qed

lemma remove_normal_frame:
  "remove_normal self w = (r, w1) \<Longrightarrow>
   commands_cache w1 = commands_cache w \<and> http_log w1 = http_log w"
  unfolding remove_normal_def by (rule remove_listener_frame)

lemma unload_frame:
  assumes "unload self w = (r, self2, w2)"
  shows "commands_cache w2 = commands_cache w"
    and "name self2 = name self"
    and "obj_id self2 = obj_id self"
proof -
  define step1 where
    "step1 = (if allow_slash_cmd self then remove_slash self w else (Inr (), self, w))"
  obtain ra sa wa where a: "step1 = (ra, sa, wa)"
    by (rule prod_cases3)
  have sa: "sa = self" and wa: "commands_cache wa = commands_cache w"
  proof -
    show "sa = self"
    proof (cases "allow_slash_cmd self")
      case True
      with a have "remove_slash self w = (ra, sa, wa)" by (simp add: step1_def)
      then show ?thesis by (rule remove_slash_frame(1))
    next
      case False
      with a show ?thesis by (simp add: step1_def)
    qed
    show "commands_cache wa = commands_cache w"
    proof (cases "allow_slash_cmd self")
      case True
      with a have "remove_slash self w = (ra, sa, wa)" by (simp add: step1_def)
      then show ?thesis by (rule remove_slash_frame(2))
    next
      case False
      with a show ?thesis by (simp add: step1_def)
    qed
  qed
  define step2 where
    "step2 = (if allow_prefix_cmd self then remove_normal self wa else (Inr (), wa))"
  obtain rb wb where b: "step2 = (rb, wb)"
    by (rule prod.exhaust)
  have wb: "commands_cache wb = commands_cache wa"
  proof (cases "allow_prefix_cmd self")
    case True
    with b have "remove_normal self wa = (rb, wb)" by (simp add: step2_def)
    from remove_normal_frame [OF this] show ?thesis ..
  next
    case False
    with b show ?thesis by (simp add: step2_def)
  qed
  have u: "unload self w =
      (case step1 of
        (Inl e, self1, w1) \<Rightarrow> (Inl e, self1, w1)
      | (Inr u, self1, w1) \<Rightarrow>
          (case (if allow_prefix_cmd self1 then remove_normal self1 w1 else (Inr (), w1)) of
             (Inl e, w2) \<Rightarrow> (Inl e, self1, w2)
           | (Inr u', w2) \<Rightarrow> (Inr (), self1\<lparr> Command__loaded := False \<rparr>, w2)))"
    by (simp add: unload_def step1_def)
  have res: "(self2 = self \<or> self2 = self\<lparr> Command__loaded := False \<rparr>) \<and> (w2 = wa \<or> w2 = wb)"
  proof (cases ra)
    case (Inl e)
    with assms u a sa show ?thesis by simp
  next
    case (Inr ua)
    with u a sa have "unload self w =
        (case step2 of (Inl e, w2) \<Rightarrow> (Inl e, self, w2)
         | (Inr u', w2) \<Rightarrow> (Inr (), self\<lparr> Command__loaded := False \<rparr>, w2))"
      by (simp add: step2_def)
    with assms b show ?thesis by (cases rb) simp_all
  qed
  from res wa wb show "commands_cache w2 = commands_cache w" by (elim conjE disjE) simp_all
  from res show "name self2 = name self" by (elim conjE disjE) simp_all
  from res show "obj_id self2 = obj_id self" by (elim conjE disjE) simp_all
qed

lemma subscriptions_log:
  "subscriptions (w\<lparr> http_log := l \<rparr>) self = subscriptions w self"
  by (simp add: subscriptions_def)

lemma remove_slash_success:
  assumes "remove_slash self w = (Inr u, self1, w1)"
  obtains l wa where "list_of_application_command_data self = Some l"
    and "remove_slash_loop l w = (Inr (), wa)"
    and "remove_listener (Command__slash_callback self) ''INTERACTION_CREATE'' wa = (Inr (), w1)"
proof -
  from assms obtain l where l: "list_of_application_command_data self = Some l"
    by (cases "list_of_application_command_data self") (simp_all add: remove_slash_def)
  obtain ra wa where loop0: "remove_slash_loop l w = (ra, wa)"
    by (rule prod.exhaust)
  obtain rb wb where rem0:
    "remove_listener (Command__slash_callback self) ''INTERACTION_CREATE'' wa = (rb, wb)"
    by (rule prod.exhaust)
  have ra: "ra = Inr ()"
    using assms l loop0 by (cases ra) (simp_all add: remove_slash_def)
  have "rb = Inr () \<and> w1 = wb"
    using assms l loop0 rem0 ra by (cases rb) (simp_all add: remove_slash_def)
  with l loop0 rem0 ra that show thesis by simp
qed

lemma remove_slash_effects:
  assumes "remove_slash self w = (Inr u, self1, w1)"
  shows "Suc (length (subscriptions w1 self)) = length (subscriptions w self)"
    and "\<exists>l. list_of_application_command_data self = Some l \<and>
           (\<forall>app. application_data w = Some app \<longrightarrow>
              http_log w1 = http_log w @
                map (\<lambda>h. DeleteGuildApplicationCommand app (fst h) (acd_id (snd h))) l)"
proof -
  from assms obtain l wa where
    l: "list_of_application_command_data self = Some l"
    and loop: "remove_slash_loop l w = (Inr (), wa)"
    and rem: "remove_listener (Command__slash_callback self) ''INTERACTION_CREATE'' wa = (Inr (), w1)"
    by (rule remove_slash_success)
  from remove_slash_loop_world [OF loop] obtain lg where wa: "wa = w\<lparr> http_log := lg \<rparr>" ..
  from rem have "Suc (length (subscriptions w1 self)) = length (subscriptions wa self)"
    unfolding Command__slash_callback_def by (rule remove_listener_effects)
  then show "Suc (length (subscriptions w1 self)) = length (subscriptions w self)"
    by (simp add: wa subscriptions_log)
  from remove_listener_frame [OF rem] have log1: "http_log w1 = http_log wa" ..
  have "http_log w1 = http_log w @
          map (\<lambda>h. DeleteGuildApplicationCommand app (fst h) (acd_id (snd h))) l"
    if "application_data w = Some app" for app
    using remove_slash_loop_log [OF loop that] log1 by simp
  with l show "\<exists>l. list_of_application_command_data self = Some l \<and>
           (\<forall>app. application_data w = Some app \<longrightarrow>
              http_log w1 = http_log w @
                map (\<lambda>h. DeleteGuildApplicationCommand app (fst h) (acd_id (snd h))) l)"
    by blast
qed

lemma unload_success:
  assumes "unload self w = (Inr u, self2, w2)"
  obtains wa where
    "(if allow_slash_cmd self then remove_slash self w else (Inr (), self, w)) = (Inr (), self, wa)"
    and "(if allow_prefix_cmd self then remove_normal self wa else (Inr (), wa)) = (Inr (), w2)"
    and "self2 = self\<lparr> Command__loaded := False \<rparr>"
proof -
  define step1 where
    "step1 = (if allow_slash_cmd self then remove_slash self w else (Inr (), self, w))"
  obtain ra sa wa where a: "step1 = (ra, sa, wa)"
    by (rule prod_cases3)
  have sa: "sa = self"
  proof (cases "allow_slash_cmd self")
    case True
    with a have "remove_slash self w = (ra, sa, wa)" by (simp add: step1_def)
    then show ?thesis by (rule remove_slash_frame(1))
  next
    case False
    with a show ?thesis by (simp add: step1_def)
  qed
  define step2 where
    "step2 = (if allow_prefix_cmd self then remove_normal self wa else (Inr (), wa))"
  obtain rb wb where b: "step2 = (rb, wb)"
    by (rule prod.exhaust)
  have u: "unload self w =
      (case step1 of
        (Inl e, self1, w1) \<Rightarrow> (Inl e, self1, w1)
      | (Inr u, self1, w1) \<Rightarrow>
          (case (if allow_prefix_cmd self1 then remove_normal self1 w1 else (Inr (), w1)) of
             (Inl e, w2) \<Rightarrow> (Inl e, self1, w2)
           | (Inr u', w2) \<Rightarrow> (Inr (), self1\<lparr> Command__loaded := False \<rparr>, w2)))"
    by (simp add: unload_def step1_def)
  have ra: "ra = Inr ()"
    using assms u a by (cases ra) simp_all
  with u a sa have u2: "unload self w =
        (case step2 of (Inl e, w2) \<Rightarrow> (Inl e, self, w2)
         | (Inr u', w2) \<Rightarrow> (Inr (), self\<lparr> Command__loaded := False \<rparr>, w2))"
    by (simp add: step2_def)
  have "rb = Inr () \<and> w2 = wb \<and> self2 = self\<lparr> Command__loaded := False \<rparr>"
    using assms u2 b by (cases rb) simp_all
  with a b ra sa that show thesis
    unfolding step1_def step2_def by simp
qed

lemma unload_effects:
  assumes "unload self w = (Inr u, self2, w2)"
  shows "length (subscriptions w2 self2) + (if allow_slash_cmd self then 1 else 0)
           + (if allow_prefix_cmd self then 1 else 0) = length (subscriptions w self)"
    and "loaded self2 = False"
    and "application_data w = Some app \<Longrightarrow>
         http_log w2 = http_log w @
           (if allow_slash_cmd self
            then map (\<lambda>h. DeleteGuildApplicationCommand app (fst h) (acd_id (snd h)))
                   (case list_of_application_command_data self of None \<Rightarrow> [] | Some l \<Rightarrow> l)
            else [])"
proof -
  from assms obtain wa where
    a: "(if allow_slash_cmd self then remove_slash self w else (Inr (), self, w)) = (Inr (), self, wa)"
    and b: "(if allow_prefix_cmd self then remove_normal self wa else (Inr (), wa)) = (Inr (), w2)"
    and self2: "self2 = self\<lparr> Command__loaded := False \<rparr>"
    by (rule unload_success)
  have cnt_a: "length (subscriptions wa self) + (if allow_slash_cmd self then 1 else 0)
                 = length (subscriptions w self)"
  proof (cases "allow_slash_cmd self")
    case True
    with a have "remove_slash self w = (Inr (), self, wa)" by simp
    from remove_slash_effects(1) [OF this] True show ?thesis by simp
  next
    case False
    with a show ?thesis by simp
  qed
  have cnt_b: "length (subscriptions w2 self) + (if allow_prefix_cmd self then 1 else 0)
                 = length (subscriptions wa self)"
  proof (cases "allow_prefix_cmd self")
    case True
    with b have "remove_listener (obj_id self, PREFIX_CMD) ''MESSAGE_CREATE'' wa = (Inr (), w2)"
      by (simp add: remove_normal_def Command__normal_callback_def)
    from remove_listener_effects [OF this] True show ?thesis by simp
  next
    case False
    with b show ?thesis by simp
  qed
  have subs2: "subscriptions w2 self2 = subscriptions w2 self"
    by (simp add: self2 subscriptions_def)
  show "length (subscriptions w2 self2) + (if allow_slash_cmd self then 1 else 0)
           + (if allow_prefix_cmd self then 1 else 0) = length (subscriptions w self)"
    using cnt_a cnt_b subs2 by simp
  show "loaded self2 = False" by (simp add: self2 loaded_def)
  have log_b: "http_log w2 = http_log wa"
  proof (cases "allow_prefix_cmd self")
    case True
    with b have "remove_normal self wa = (Inr (), w2)" by simp
    from remove_normal_frame [OF this] show ?thesis ..
  next
    case False
    with b show ?thesis by simp
  qed
  show "http_log w2 = http_log w @
           (if allow_slash_cmd self
            then map (\<lambda>h. DeleteGuildApplicationCommand app (fst h) (acd_id (snd h)))
                   (case list_of_application_command_data self of None \<Rightarrow> [] | Some l \<Rightarrow> l)
            else [])" if app: "application_data w = Some app"
  proof (cases "allow_slash_cmd self")
    case True
    with a have "remove_slash self w = (Inr (), self, wa)" by simp
    from remove_slash_effects(2) [OF this] app True log_b show ?thesis by auto
  next
    case False
    with a log_b show ?thesis by simp
  qed
qed

lemma subscriptions_append:
  "listeners w1 = listeners w @ extra \<Longrightarrow> obj_id self1 = obj_id self \<Longrightarrow>
   subscriptions w1 self1 = subscriptions w self @ filter (\<lambda>l. fst (snd l) = obj_id self) extra"
  by (simp add: subscriptions_def)

lemma Command_init_fresh:
  assumes "Command_init f name0 description0 roles0 prefix0 slash0 parent0 w = (Inr self, w')"
      and "\<forall>l \<in> set (listeners w). fst (snd l) < next_id w"
  shows "subscriptions w' self = []"
proof -
  from assms(1) have "obj_id self = next_id w" and "listeners w' = listeners w"
    unfolding Command_init_def Let_def by (auto split: list.splits)
  with assms(2) show ?thesis
    by (auto simp add: subscriptions_def filter_empty_conv)
qed

text \<open>Deleting, construction and the extension lookup.\<close>

lemma find_remove1_distinct:
  "distinct (map fst xs) \<Longrightarrow> (k, v) \<in> set xs \<Longrightarrow>
   find (\<lambda>entry. fst entry = k) (remove1 (k, v) xs) = None"
proof (induction xs)
  case Nil
  then show ?case by simp
next
  case (Cons x xs)
  show ?case
  proof (cases "x = (k, v)")
    case True
    with Cons.prems have "k \<notin> fst ` set xs" by simp
    with True show ?thesis by (force simp add: find_None_iff)
  next
    case False
    with Cons.prems have in_xs: "(k, v) \<in> set xs" by simp
    then have "k \<in> fst ` set xs" by force
    with Cons.prems have "fst x \<noteq> k" by auto
    with False Cons.IH in_xs Cons.prems show ?thesis by simp
  qed
qed

lemma delete_success:
  assumes "delete self w = (Inr u, self1, w1)"
  shows "(name self, obj_id self) \<in> set (commands_cache w)"
    and "commands_cache w1 = remove1 (name self, obj_id self) (commands_cache w)"
proof -
  obtain r sa wa where un: "unload self w = (r, sa, wa)"
    by (rule prod_cases3)
  note fr = unload_frame [OF un]
  from assms un obtain ua where r: "r = Inr ua"
    by (cases r) (simp_all add: delete_def)
  from assms un r fr show "(name self, obj_id self) \<in> set (commands_cache w)"
    by (simp add: delete_def split: if_splits)
  from assms un r fr
  show "commands_cache w1 = remove1 (name self, obj_id self) (commands_cache w)"
    by (auto simp add: delete_def split: if_splits)
qed

lemma Command_init_no_handles:
  "Command_init f name0 description0 roles0 prefix0 slash0 parent0 w = (Inr self, w') \<Longrightarrow>
   list_of_application_command_data self = None \<and> allow_slash_cmd self = slash0"
  unfolding Command_init_def Let_def by (auto split: list.splits)

lemma create_slash_failure_keeps_command:
  "create_slash self w = (Inl e, self1, w1) \<Longrightarrow> self1 = self"
  unfolding create_slash_def by (auto split: prod.splits sum.splits)

lemma extension_config_update:
  "extension self (w\<lparr> config_allowed_guilds := cfg \<rparr>) = extension self w"
  by (simp add: extension_def split: sum.split option.split)

text \<open>A successful load leaves the extension resolvable, and the unload after it returns
  when the remote accepts every deletion.\<close>

lemma extension_frame:
  "extensions_cache w1 = extensions_cache w \<Longrightarrow> func self1 = func self \<Longrightarrow>
   Command__in_extension self1 = Command__in_extension self \<Longrightarrow>
   extension self1 w1 = extension self w"
  by (simp add: extension_def extension_name_def in_extension_def
        split: sum.split option.split list.split)

lemma load_success_extension:
  assumes "load self w = (Inr u, self1, w1)"
  shows "\<exists>ext. extension self1 w1 = Inr ext"
proof -
  define step1 where
    "step1 = (if allow_slash_cmd self then create_slash self w else (Inr [], self, w))"
  obtain ra sa wa where a: "step1 = (ra, sa, wa)"
    by (rule prod_cases3)
  define wb where "wb = (if allow_prefix_cmd sa then create_normal sa wa else wa)"
  have l0: "load self w =
     (case step1 of
        (Inl e, self1, w1) \<Rightarrow> (Inl e, self1, w1)
      | (Inr l, self1, w1) \<Rightarrow>
          (let w2 = (if allow_prefix_cmd self1 then create_normal self1 w1 else w1)
           in case extension self1 w2 of
                Inl e \<Rightarrow> (Inl e, self1, w2)
              | Inr None \<Rightarrow> (Inr (), self1\<lparr> Command__loaded := True \<rparr>, w2)
              | Inr (Some ext) \<Rightarrow>
                  (Inr (), self1\<lparr> Command__loaded := True \<rparr>, add_command ext self1 w2)))"
    by (simp add: load_def step1_def)
  have l: "load self w =
     (case ra of
        Inl e \<Rightarrow> (Inl e, sa, wa)
      | Inr l \<Rightarrow>
          (case extension sa wb of
                Inl e \<Rightarrow> (Inl e, sa, wb)
              | Inr None \<Rightarrow> (Inr (), sa\<lparr> Command__loaded := True \<rparr>, wb)
              | Inr (Some ext) \<Rightarrow>
                  (Inr (), sa\<lparr> Command__loaded := True \<rparr>, add_command ext sa wb)))"
    unfolding l0 a wb_def by (cases ra) (simp_all add: Let_def)
  from assms l obtain lst where ra: "ra = Inr lst"
    by (cases ra) simp_all
  from assms l ra obtain ext where ext: "extension sa wb = Inr ext"
    by (cases "extension sa wb") simp_all
  have self1: "self1 = sa\<lparr> Command__loaded := True \<rparr>"
    using assms l ra ext by (cases ext) simp_all
  have w1: "w1 = wb \<or> (\<exists>e. w1 = add_command e sa wb)"
    using assms l ra ext by (cases ext) auto
  then have "extensions_cache w1 = extensions_cache wb"
    by (auto simp add: add_command_def)
  then have "extension self1 w1 = extension sa wb"
    by (rule extension_frame) (simp_all add: self1)
  with ext show ?thesis by simp
qed

lemma remove_slash_loop_returns:
  assumes "\<forall>lg rq. http_delete w lg rq = None" and "application_data w = Some app"
  shows "\<exists>w1. remove_slash_loop hs w = (Inr (), w1)"
  using assms
proof (induction hs arbitrary: w)
  case Nil
  then show ?case by simp
next
  case (Cons h rest)
  let ?w = "w\<lparr> http_log := http_log w @
              [DeleteGuildApplicationCommand app (fst h) (acd_id (snd h))] \<rparr>"
  have "\<forall>lg rq. http_delete ?w lg rq = None" and "application_data ?w = Some app"
    using Cons.prems by simp_all
  from Cons.IH [OF this] obtain w1 where "remove_slash_loop rest ?w = (Inr (), w1)" ..
  with Cons.prems show ?case by (simp add: Let_def)
qed

lemma remove_slash_returns:
  assumes "list_of_application_command_data self = Some l"
      and "\<forall>lg rq. http_delete w lg rq = None" and "application_data w = Some app"
      and "(''INTERACTION_CREATE'', Command__slash_callback self) \<in> set (listeners w)"
  shows "\<exists>lg. remove_slash self w =
           (Inr (), self, w\<lparr> http_log := lg,
              listeners := remove1 (''INTERACTION_CREATE'', Command__slash_callback self)
                             (listeners w) \<rparr>)"
proof -
  from remove_slash_loop_returns [OF assms(2,3)]
  obtain wa where loop: "remove_slash_loop l w = (Inr (), wa)" ..
  from remove_slash_loop_world [OF loop] obtain lg where wa: "wa = w\<lparr> http_log := lg \<rparr>" ..
  have "remove_slash self w =
           (Inr (), self, w\<lparr> http_log := lg,
              listeners := remove1 (''INTERACTION_CREATE'', Command__slash_callback self)
                             (listeners w) \<rparr>)"
    using assms(1,4) loop by (simp add: remove_slash_def remove_listener_def wa)
  then show ?thesis ..
qed

lemma unload_after_load_returns:
  assumes "load self w = (Inr (), self1, w1)"
      and "\<forall>lg rq. http_delete w lg rq = None" and "application_data w = Some app"
  shows "\<exists>self2 w2. unload self1 w1 = (Inr (), self2, w2)"
proof -
  note le = load_effects [OF assms(1)]
  have del1: "\<forall>lg rq. http_delete w1 lg rq = None" using assms(2) le(7) by simp
  have app1: "application_data w1 = Some app" using assms(3) le(5) by simp
  have ls: "listeners w1 = listeners w @
             (if allow_slash_cmd self then [(''INTERACTION_CREATE'', Command__slash_callback self)]
              else []) @
             (if allow_prefix_cmd self then [(''MESSAGE_CREATE'', Command__normal_callback self)]
              else [])"
    using le(10) by simp
  have cb: "Command__slash_callback self1 = Command__slash_callback self"
    "Command__normal_callback self1 = Command__normal_callback self"
    using le(1) by (simp_all add: Command__slash_callback_def Command__normal_callback_def)
  obtain wa where
    a: "(if allow_slash_cmd self1 then remove_slash self1 w1 else (Inr (), self1, w1))
          = (Inr (), self1, wa)"
    and wa: "allow_prefix_cmd self \<Longrightarrow>
               (''MESSAGE_CREATE'', Command__normal_callback self) \<in> set (listeners wa)"
  proof (cases "allow_slash_cmd self")
    case True
    from le(11) True obtain l where l: "list_of_application_command_data self1 = Some l"
      by auto
    have "(''INTERACTION_CREATE'', Command__slash_callback self1) \<in> set (listeners w1)"
      using ls True cb by simp
    from remove_slash_returns [OF l del1 app1 this] obtain lg where
      rs: "remove_slash self1 w1 =
           (Inr (), self1, w1\<lparr> http_log := lg,
              listeners := remove1 (''INTERACTION_CREATE'', Command__slash_callback self1)
                             (listeners w1) \<rparr>)" ..
    show ?thesis
    proof (rule that)
      show "(if allow_slash_cmd self1 then remove_slash self1 w1 else (Inr (), self1, w1))
          = (Inr (), self1, w1\<lparr> http_log := lg,
              listeners := remove1 (''INTERACTION_CREATE'', Command__slash_callback self1)
                             (listeners w1) \<rparr>)"
        using rs True le(3) by simp
      show "(''MESSAGE_CREATE'', Command__normal_callback self) \<in>
             set (listeners (w1\<lparr> http_log := lg,
              listeners := remove1 (''INTERACTION_CREATE'', Command__slash_callback self1)
                             (listeners w1) \<rparr>))" if "allow_prefix_cmd self"
        using that ls by (simp add: cb)
    qed
  next
    case False
    show ?thesis
    proof (rule that)
      show "(if allow_slash_cmd self1 then remove_slash self1 w1 else (Inr (), self1, w1))
          = (Inr (), self1, w1)"
        using False le(3) by simp
      show "(''MESSAGE_CREATE'', Command__normal_callback self) \<in> set (listeners w1)"
        if "allow_prefix_cmd self"
        using that ls by simp
    qed
  qed
  obtain wb where
    b: "(if allow_prefix_cmd self1 then remove_normal self1 wa else (Inr (), wa)) = (Inr (), wb)"
  proof (cases "allow_prefix_cmd self")
    case True
    with wa have "(''MESSAGE_CREATE'', Command__normal_callback self1) \<in> set (listeners wa)"
      by (simp add: cb)
    then have "remove_normal self1 wa =
        (Inr (), wa\<lparr> listeners := remove1 (''MESSAGE_CREATE'', Command__normal_callback self1)
                                   (listeners wa) \<rparr>)"
      by (simp add: remove_normal_def remove_listener_def)
    with True le(4) that show ?thesis by simp
  next
    case False
    with le(4) that show ?thesis by simp
  qed
  have "unload self1 w1 = (Inr (), self1\<lparr> Command__loaded := False \<rparr>, wb)"
    unfolding unload_def a using b by simp
  then show ?thesis by blast
qed

section \<open>The examples, step by step\<close>

lemma ping_cmd_fields:
  "obj_id ping_cmd = 1" "name ping_cmd = ''ping''" "func ping_cmd = ping_func"
  "allow_prefix_cmd ping_cmd" "\<not> allow_slash_cmd ping_cmd" "\<not> Command__in_extension ping_cmd"
  "list_of_application_command_data ping_cmd = None"
  by (simp_all add: ping_cmd_def)

lemma hello_cmd_fields:
  "obj_id hello_cmd = 1" "name hello_cmd = ''hello''" "func hello_cmd = hello_func"
  "description hello_cmd = ''This command has no description. Sorry about that.''"
  "allow_prefix_cmd hello_cmd" "allow_slash_cmd hello_cmd" "Command__in_extension hello_cmd"
  "list_of_application_command_data hello_cmd = None"
  by (simp_all add: hello_cmd_def)

lemma hello_cmd_init:
  "Command_init hello_func None None None True True None world0 = (Inr hello_cmd, world_hello)"
  by (simp add: Command_init_def hello_cmd_def world_hello_def hello_func_fields world0_fields Let_def)

lemma ping_extension: "extension ping_cmd w = Inr None" "extension ping_loaded w = Inr None"
  by (simp_all add: extension_def in_extension_def ping_loaded_def ping_cmd_fields)

lemma ping_load: "load ping_cmd world_ping = (Inr (), ping_loaded, world_ping_loaded)"
  by (simp add: load_def ping_cmd_fields ping_extension create_normal_def add_listener_def
        Command__normal_callback_def ping_loaded_def world_ping_loaded_def world_ping_def
        world0_fields)

lemma listeners_update_same: "listeners w = l \<Longrightarrow> w\<lparr> listeners := l \<rparr> = w"
  by simp

lemma world_ping_fields:
  "commands_cache world_ping = [(''ping'', 1)]" "listeners world_ping = []"
  "http_log world_ping = []" "application_data world_ping = Some ''app''"
  "invocations world_ping = []"
  by (simp_all add: world_ping_def world0_fields)

lemma ping_unload: "unload ping_loaded world_ping_loaded = (Inr (), ping_cmd, world_ping)"
  by (simp add: unload_def remove_normal_def remove_listener_def Command__normal_callback_def
        ping_loaded_def world_ping_loaded_def ping_cmd_fields ping_cmd_def
        listeners_update_same world_ping_fields)

lemma hello_extension: "extension hello_cmd world_hello = Inr (Some 0)"
  by (simp add: extension_def extension_name_def in_extension_def hello_cmd_fields
        hello_func_fields cache_lookup_def world_hello_def world0_fields)

lemma hello_load: "load hello_cmd world_hello = (Inr (), hello_loaded, world_hello_loaded)"
  by (simp add: load_def create_slash_def hello_cmd_fields Let_def create_normal_def
        add_listener_def add_command_def Command__normal_callback_def
        Command__slash_callback_def hello_loaded_def world_hello_loaded_def world_hello_def
        world0_fields extension_def extension_name_def in_extension_def hello_func_fields
        cache_lookup_def)

lemma world_hello_fields:
  "commands_cache world_hello = [(''hello'', 1)]" "listeners world_hello = []"
  "http_log world_hello = []" "application_data world_hello = Some ''app''"
  "guilds_allowed_guilds world_hello = [(''111'', ''test_server'')]"
  by (simp_all add: world_hello_def world0_fields)

lemma hello_unload:
  "unload hello_loaded world_hello_loaded =
     (Inr (), hello_loaded\<lparr> Command__loaded := False \<rparr>,
      world_hello_loaded\<lparr> listeners := [],
        http_log := [CreateGuildApplicationCommand ''app'' ''111'' ''hello''
                       ''This command has no description. Sorry about that.'',
                     DeleteGuildApplicationCommand ''app'' ''111'' ''111/hello''] \<rparr>)"
  by (simp add: unload_def remove_slash_def remove_normal_def remove_listener_def Let_def
        Command__normal_callback_def Command__slash_callback_def hello_loaded_def
        world_hello_loaded_def world_hello_def hello_cmd_fields world0_fields)

lemma world_ping_loaded_fields:
  "commands_cache world_ping_loaded = [(''ping'', 1)]"
  "listeners world_ping_loaded = [(''MESSAGE_CREATE'', 1, PREFIX_CMD)]"
  "invocations world_ping_loaded = []"
  "config_allowed_guilds world_ping_loaded =
     Some [(''{guild_id_here}'', ''template''), (''111'', ''test_server'')]"
  "get_guild world_ping_loaded ''111'' = Some \<lparr> prefix = ''!'' \<rparr>"
  by (simp_all add: world_ping_loaded_def world_ping_def world0_fields)

lemma ping_loaded_fields:
  "obj_id ping_loaded = 1" "name ping_loaded = ''ping''" "func ping_loaded = ping_func"
  "allow_prefix_cmd ping_loaded" "\<not> allow_slash_cmd ping_loaded"
  "\<not> Command__in_extension ping_loaded"
  by (simp_all add: ping_loaded_def ping_cmd_def)

lemma world0_allowed_guilds:
  "allowed_guilds (config_allowed_guilds world_ping_loaded) =
     (Inr [(''111'', ''test_server'')], Some [(''111'', ''test_server'')])"
  by (simp add: allowed_guilds_def world_ping_loaded_fields Let_def)

lemma ping_delete:
  "delete ping_loaded world_ping_loaded = (Inr (), ping_cmd, world_ping\<lparr> commands_cache := [] \<rparr>)"
  by (simp add: delete_def ping_unload ping_cmd_fields world_ping_fields)

lemma ping_load_again:
  "load ping_cmd (world_ping\<lparr> commands_cache := [] \<rparr>) =
     (Inr (), ping_loaded, world_ping_loaded\<lparr> commands_cache := [] \<rparr>)"
  by (simp add: load_def ping_cmd_fields ping_extension create_normal_def add_listener_def
        Command__normal_callback_def ping_loaded_def world_ping_loaded_def world_ping_fields)

lemma ping_unload_again:
  "unload ping_loaded (world_ping_loaded\<lparr> commands_cache := [] \<rparr>) =
     (Inr (), ping_cmd, world_ping\<lparr> commands_cache := [] \<rparr>)"
  by (simp add: unload_def remove_normal_def remove_listener_def Command__normal_callback_def
        ping_loaded_def world_ping_loaded_def ping_cmd_fields ping_cmd_def
        listeners_update_same world_ping_fields)

lemma ping_delete_again:
  "delete ping_loaded (world_ping_loaded\<lparr> commands_cache := [] \<rparr>) =
     (Inl ValueError, ping_cmd, world_ping\<lparr> commands_cache := [] \<rparr>)"
  by (simp add: delete_def ping_unload_again)

lemma world_twins_fields:
  "commands_cache world_twins = [(''ping'', 1), (''ping'', 2)]"
  by (simp add: world_twins_def)

lemma ping_twin_init:
  "Command_init ping_func None None None True False None world_ping = (Inr ping_twin, world_twins)"
  by (simp add: Command_init_def ping_twin_def ping_cmd_def world_twins_def world_ping_def
        ping_func_fields world0_fields Let_def)

lemma twins_load:
  "load ping_cmd world_twins =
     (Inr (), ping_loaded, world_twins\<lparr> listeners := [(''MESSAGE_CREATE'', 1, PREFIX_CMD)] \<rparr>)"
  by (simp add: load_def ping_cmd_fields ping_extension create_normal_def add_listener_def
        Command__normal_callback_def ping_loaded_def world_twins_def world_ping_fields)

lemma twins_delete:
  "delete ping_loaded (world_twins\<lparr> listeners := [(''MESSAGE_CREATE'', 1, PREFIX_CMD)] \<rparr>) =
     (Inr (), ping_cmd, world_twins\<lparr> listeners := [], commands_cache := [(''ping'', 2)] \<rparr>)"
  by (simp add: delete_def unload_def remove_normal_def remove_listener_def
        Command__normal_callback_def ping_loaded_def ping_cmd_def world_twins_def)

section \<open>Construction\<close>

text \<open>
  C7. Constructing a command on a callback that declares at least one parameter (its code
  object lists the declared parameters first among its variable names) succeeds. The
  command is not loaded; its name is the given one, or the callback's function name when
  none is given; \<open>in_extension\<close> holds exactly when the first declared parameter is
  \<open>self\<close>, and then that parameter is dropped from \<open>params\<close> and not counted in the
  parameter amount. Exactly one pair \<open>(name, command)\<close> is appended to \<open>commands_cache\<close>,
  whatever the cache holds already.
\<close>

theorem Command_init_contract:
  assumes "0 < co_argcount f" and "co_argcount f \<le> length (co_varnames f)"
  shows "\<exists>self. Command_init f name0 description0 roles0 prefix0 slash0 parent0 w =
           (Inr self, w\<lparr> commands_cache := commands_cache w @ [(name self, obj_id self)],
                         next_id := Suc (next_id w) \<rparr>)
         \<and> loaded self = False
         \<and> name self = (case name0 of None \<Rightarrow> func_name f | Some n \<Rightarrow> n)
         \<and> in_extension self = (hd (take (co_argcount f) (co_varnames f)) = ''self'')
         \<and> params self = (if in_extension self then tl (co_varnames f) else co_varnames f)
         \<and> Command__params_amount self =
             (if in_extension self then int (co_argcount f) - 1 else int (co_argcount f))"
proof -
  from assms obtain n where n: "co_argcount f = Suc n"
    by (cases "co_argcount f") simp_all
  from assms obtain p ps where vs: "co_varnames f = p # ps"
    by (cases "co_varnames f") simp_all
  show ?thesis
    unfolding Command_init_def Let_def
    by (simp add: vs n in_extension_def loaded_def split: option.split)
qed

text \<open>The contract at \<open>hello_func\<close>, constructed while the cache already holds a command
  of the same name.\<close>

theorem Command_init_contract_witness:
  "0 < co_argcount hello_func \<and> co_argcount hello_func \<le> length (co_varnames hello_func) \<and>
   (\<exists>self. fst (Command_init hello_func None None None True True None
                 (world0\<lparr> commands_cache := [(''hello'', 0)] \<rparr>)) = Inr self
         \<and> commands_cache (snd (Command_init hello_func None None None True True None
                 (world0\<lparr> commands_cache := [(''hello'', 0)] \<rparr>))) = [(''hello'', 0), (''hello'', 1)]
         \<and> loaded self = False \<and> name self = ''hello'' \<and> in_extension self
         \<and> params self = [''platter'', ''reply''] \<and> Command__params_amount self = 1)"
proof -
  let ?w = "world0\<lparr> commands_cache := [(''hello'', 0)] \<rparr>"
  have a: "0 < co_argcount hello_func"
    and b: "co_argcount hello_func \<le> length (co_varnames hello_func)"
    by (simp_all add: hello_func_fields)
  from Command_init_contract [OF a b, of None None None True True None ?w]
  obtain self where
    init: "Command_init hello_func None None None True True None ?w =
           (Inr self, ?w\<lparr> commands_cache := commands_cache ?w @ [(name self, obj_id self)],
                          next_id := Suc (next_id ?w) \<rparr>)"
    and props: "loaded self = False"
      "name self = (case None of None \<Rightarrow> func_name hello_func | Some n \<Rightarrow> n)"
      "in_extension self = (hd (take (co_argcount hello_func) (co_varnames hello_func)) = ''self'')"
      "params self = (if in_extension self then tl (co_varnames hello_func)
                      else co_varnames hello_func)"
      "Command__params_amount self =
         (if in_extension self then int (co_argcount hello_func) - 1
          else int (co_argcount hello_func))"
    by blast
  have ext: "in_extension self"
    using props(3) by (simp add: hello_func_fields)
  have ident: "obj_id self = 1"
    using init by (auto simp add: Command_init_def hello_func_fields world0_fields Let_def)
  show ?thesis
    using a b props ext ident
    by (intro conjI exI [of _ self]) (simp_all add: init hello_func_fields)
qed

section \<open>The arity check\<close>

text \<open>
  C2, as the code has it. For a command constructed on a callback whose code object names
  no variable besides its declared parameters, \<open>any_args_missing\<close> returns true exactly
  when the number of supplied arguments equals the number of declared parameters without
  \<open>self\<close> (for an extension method) and without the first parameter, the context object.
\<close>

theorem any_args_missing_true_on_match:
  assumes "Command_init f name0 description0 roles0 prefix0 slash0 parent0 w = (Inr self, w')"
      and "length (co_varnames f) = co_argcount f"
  shows "any_args_missing self args \<longleftrightarrow>
           length args = co_argcount f - (if in_extension self then 1 else 0) - 1"
  using assms unfolding Command_init_def Let_def any_args_missing_def in_extension_def
  by (auto split: list.splits)

theorem any_args_missing_true_on_match_witness:
  "Command_init ping_func None None None True False None world0 = (Inr ping_cmd, world_ping)
   \<and> length (co_varnames ping_func) = co_argcount ping_func
   \<and> any_args_missing ping_cmd ([] :: string list)
   \<and> \<not> any_args_missing ping_cmd [''extra'']"
proof -
  have len: "length (co_varnames ping_func) = co_argcount ping_func"
    by (simp add: ping_func_fields)
  have ext: "\<not> in_extension ping_cmd"
    by (simp add: in_extension_def ping_cmd_def)
  have "any_args_missing ping_cmd ([] :: string list)"
    using any_args_missing_true_on_match [OF ping_cmd_init len, of "[] :: string list"] ext
    by (simp add: ping_func_fields)
  moreover have "\<not> any_args_missing ping_cmd [''extra'']"
    using any_args_missing_true_on_match [OF ping_cmd_init len, of "[''extra'']"] ext
    by (simp add: ping_func_fields)
  ultimately show ?thesis
    using len ping_cmd_init by simp
qed

text \<open>The claim as stated fails: \<open>ping\<close> declares no parameter besides the context object,
  no argument is supplied, and the result is true.\<close>

theorem any_args_missing_counterexample:
  "fst (Command_init ping_func None None None True False None world0) = Inr ping_cmd
   \<and> length ([] :: string list) = co_argcount ping_func - 1
   \<and> any_args_missing ping_cmd ([] :: string list) = True"
  by (simp add: ping_cmd_init ping_func_fields ping_cmd_def any_args_missing_def)

section \<open>Dispatch\<close>

text \<open>
  C1. A message-create payload that carries a guild id reaches \<open>__invoke\<close> with the
  platter type \<open>PREFIX_CMD\<close>. When the configuration holds the allowed guilds, the
  command's extension resolves (as it does after a successful load, lemma
  \<open>load_success_extension\<close>; a command outside any extension has none to resolve) and
  every allowed guild is known to \<open>get_guild\<close>, the handler returns without error, and
  the callback is called, once, exactly when the guild id is among the allowed guilds and
  the content equals the guild's prefix followed by the command's name. In every other
  case nothing is called.
\<close>

theorem prefix_dispatch_exact_match:
  assumes "allowed_guilds (config_allowed_guilds w) = (Inr ag, cfg)"
      and "extension self w = Inr ext"
      and "gid \<in> set (map fst ag) \<longrightarrow> get_guild w gid = Some g"
  shows "Command__invoke self (MessageData (Some gid) content author) PREFIX_CMD w =
           (Inr (),
            if gid \<in> set (map fst ag) \<and> content = prefix g @ name self
            then w\<lparr> config_allowed_guilds := cfg,
                    invocations := invocations w @
                      [\<lparr> inv_func = func self, inv_extension = ext,
                         inv_platter = \<lparr> platter_data = MessageData (Some gid) content author,
                                         platter_type = PREFIX_CMD,
                                         platter_command = obj_id self \<rparr> \<rparr>] \<rparr>
            else w\<lparr> config_allowed_guilds := cfg \<rparr>)"
proof -
  have ext_none: "ext = None" if "\<not> in_extension self"
    using that assms(2) by (simp add: extension_def)
  show ?thesis
    using assms ext_none
    by (auto simp add: Command__invoke_def call_func_def Let_def extension_config_update)
qed

text \<open>
  The loaded \<open>ping\<close> command in a guild with prefix \<open>!\<close>: the message \<open>!ping\<close>
  invokes it, \<open>!ping extra\<close> does not, and \<open>!ping\<close> from a guild that is not allowed
  does not.
\<close>

theorem prefix_dispatch_exact_match_witness:
  "load ping_cmd world_ping = (Inr (), ping_loaded, world_ping_loaded)
   \<and> allowed_guilds (config_allowed_guilds world_ping_loaded) =
        (Inr [(''111'', ''test_server'')], Some [(''111'', ''test_server'')])
   \<and> extension ping_loaded world_ping_loaded = Inr None
   \<and> get_guild world_ping_loaded ''111'' = Some \<lparr> prefix = ''!'' \<rparr>
   \<and> Command__invoke ping_loaded (MessageData (Some ''111'') ''!ping'' someone) PREFIX_CMD
         world_ping_loaded =
        (Inr (), world_ping_loaded\<lparr>
           config_allowed_guilds := Some [(''111'', ''test_server'')],
           invocations :=
             [\<lparr> inv_func = ping_func, inv_extension = None,
                inv_platter = \<lparr> platter_data = MessageData (Some ''111'') ''!ping'' someone,
                                platter_type = PREFIX_CMD, platter_command = 1 \<rparr> \<rparr>] \<rparr>)
   \<and> Command__invoke ping_loaded (MessageData (Some ''111'') ''!ping extra'' someone) PREFIX_CMD
         world_ping_loaded =
        (Inr (), world_ping_loaded\<lparr> config_allowed_guilds := Some [(''111'', ''test_server'')] \<rparr>)
   \<and> Command__invoke ping_loaded (MessageData (Some ''999'') ''!ping'' someone) PREFIX_CMD
         world_ping_loaded =
        (Inr (), world_ping_loaded\<lparr> config_allowed_guilds := Some [(''111'', ''test_server'')] \<rparr>)"
proof -
  note ag = world0_allowed_guilds
  have ext: "extension ping_loaded world_ping_loaded = Inr None"
    by (rule ping_extension)
  have g: "get_guild world_ping_loaded ''111'' = Some \<lparr> prefix = ''!'' \<rparr>"
    by (rule world_ping_loaded_fields)
  have g1: "''111'' \<in> set (map fst [(''111'', ''test_server'')]) \<longrightarrow>
            get_guild world_ping_loaded ''111'' = Some \<lparr> prefix = ''!'' \<rparr>"
    using g by simp
  have g9: "''999'' \<in> set (map fst [(''111'', ''test_server'')]) \<longrightarrow>
            get_guild world_ping_loaded ''999'' = Some \<lparr> prefix = ''!'' \<rparr>"
    by simp
  have a: "Command__invoke ping_loaded (MessageData (Some ''111'') ''!ping'' someone) PREFIX_CMD
         world_ping_loaded =
        (Inr (), world_ping_loaded\<lparr>
           config_allowed_guilds := Some [(''111'', ''test_server'')],
           invocations :=
             [\<lparr> inv_func = ping_func, inv_extension = None,
                inv_platter = \<lparr> platter_data = MessageData (Some ''111'') ''!ping'' someone,
                                platter_type = PREFIX_CMD, platter_command = 1 \<rparr> \<rparr>] \<rparr>)"
    using prefix_dispatch_exact_match [OF ag ext g1, of "''!ping''" someone]
    by (simp add: ping_loaded_fields world_ping_loaded_fields)
  have b: "Command__invoke ping_loaded (MessageData (Some ''111'') ''!ping extra'' someone)
         PREFIX_CMD world_ping_loaded =
        (Inr (), world_ping_loaded\<lparr> config_allowed_guilds := Some [(''111'', ''test_server'')] \<rparr>)"
    using prefix_dispatch_exact_match [OF ag ext g1, of "''!ping extra''" someone]
    by (simp add: ping_loaded_fields)
  have c: "Command__invoke ping_loaded (MessageData (Some ''999'') ''!ping'' someone) PREFIX_CMD
         world_ping_loaded =
        (Inr (), world_ping_loaded\<lparr> config_allowed_guilds := Some [(''111'', ''test_server'')] \<rparr>)"
    using prefix_dispatch_exact_match [OF ag ext g9, of "''!ping''" someone]
    by simp
  from ping_load ag ext g a b c show ?thesis by (intro conjI)
qed

text \<open>
  C10. A payload without a \<open>guild_id\<close> key, message or interaction, makes the handler
  raise \<open>KeyError\<close> before anything else happens. A payload whose guild id is not among
  the allowed guilds is dropped without error and without a call.
\<close>

theorem invoke_without_guild_id:
  "Command__invoke self (MessageData None content author) type w = (Inl KeyError, w)
   \<and> Command__invoke self (InteractionData None member) type w = (Inl KeyError, w)
   \<and> (\<forall>data gid ag cfg.
         data_guild_id data = Inr gid \<and>
         allowed_guilds (config_allowed_guilds w) = (Inr ag, cfg) \<and>
         gid \<notin> set (map fst ag) \<longrightarrow>
         Command__invoke self data type w = (Inr (), w\<lparr> config_allowed_guilds := cfg \<rparr>))"
  by (simp add: Command__invoke_def)

theorem invoke_without_guild_id_witness:
  "Command__invoke ping_loaded (MessageData None ''!ping'' someone) PREFIX_CMD world_ping_loaded =
     (Inl KeyError, world_ping_loaded)
   \<and> data_guild_id (MessageData (Some ''999'') ''!ping'' someone) = Inr ''999''
   \<and> allowed_guilds (config_allowed_guilds world_ping_loaded) =
        (Inr [(''111'', ''test_server'')], Some [(''111'', ''test_server'')])
   \<and> ''999'' \<notin> set (map fst [(''111'', ''test_server'')])
   \<and> Command__invoke ping_loaded (MessageData (Some ''999'') ''!ping'' someone) PREFIX_CMD
         world_ping_loaded =
        (Inr (), world_ping_loaded\<lparr> config_allowed_guilds := Some [(''111'', ''test_server'')] \<rparr>)"
proof -
  note t = invoke_without_guild_id [of ping_loaded "''!ping''" someone PREFIX_CMD
              world_ping_loaded None]
  have d: "data_guild_id (MessageData (Some ''999'') ''!ping'' someone) = Inr ''999''" by simp
  have n: "''999'' \<notin> set (map fst [(''111'', ''test_server'')])" by simp
  from t have "Command__invoke ping_loaded (MessageData None ''!ping'' someone) PREFIX_CMD
      world_ping_loaded = (Inl KeyError, world_ping_loaded)" by blast
  moreover from t d n world0_allowed_guilds
  have "Command__invoke ping_loaded (MessageData (Some ''999'') ''!ping'' someone) PREFIX_CMD
         world_ping_loaded =
        (Inr (), world_ping_loaded\<lparr> config_allowed_guilds := Some [(''111'', ''test_server'')] \<rparr>)"
    by blast
  ultimately show ?thesis using d n world0_allowed_guilds by (intro conjI)
qed

section \<open>Configuration\<close>

text \<open>
  C8, as the code has it. \<open>allowed_guilds\<close> raises the configuration error exactly when
  the key is not found. Otherwise it returns the pairs of the configured dictionary in
  their order, without the entry of the template key \<open>{guild_id_here}\<close>, which it
  also deletes from the dictionary.
\<close>

theorem allowed_guilds_result:
  "(fst (allowed_guilds data0) = Inl GoldyBotError \<longleftrightarrow> data0 = None)
   \<and> (\<forall>d. data0 = Some d \<longrightarrow>
         allowed_guilds data0 =
           (Inr (filter (\<lambda>kv. fst kv \<noteq> ''{guild_id_here}'') d),
            Some (filter (\<lambda>kv. fst kv \<noteq> ''{guild_id_here}'') d)))"
proof -
  have "filter (\<lambda>kv. fst kv \<noteq> ''{guild_id_here}'') d = d"
    if "''{guild_id_here}'' \<notin> fst ` set d" for d :: "(string \<times> string) list"
    using that by (induction d) auto
  then show ?thesis
    unfolding allowed_guilds_def Let_def
    by (auto split: option.splits)
qed

theorem allowed_guilds_result_witness:
  "allowed_guilds (config_allowed_guilds world0) =
     (Inr [(''111'', ''test_server'')], Some [(''111'', ''test_server'')])"
  using allowed_guilds_result [of "config_allowed_guilds world0"]
  by (simp add: world0_fields)

text \<open>
  The claim as stated fails on a configuration that still holds the template entry: the
  result is not the list of the configured pairs.
\<close>

theorem allowed_guilds_counterexample:
  "fst (allowed_guilds (Some [(''{guild_id_here}'', ''template''), (''111'', ''test_server'')]))
     \<noteq> Inr [(''{guild_id_here}'', ''template''), (''111'', ''test_server'')]"
  by (simp add: allowed_guilds_def Let_def)

section \<open>Load and unload\<close>

text \<open>
  C4. A command that allows the prefix path and not the slash path, and that is not
  subscribed yet (as every newly constructed command is, lemma \<open>Command_init_fresh\<close>),
  has after \<open>load\<close> exactly one subscription, its prefix callback on
  \<open>MESSAGE_CREATE\<close>, and no remote request has been issued. This holds whether or not
  the load completes.
\<close>

theorem load_prefix_only:
  assumes "allow_prefix_cmd self" and "\<not> allow_slash_cmd self"
      and "subscriptions w self = []"
      and "load self w = (r, self1, w1)"
  shows "subscriptions w1 self1 = [(''MESSAGE_CREATE'', Command__normal_callback self)]
       \<and> http_log w1 = http_log w"
proof -
  note le = load_effects [OF assms(4)]
  have ls: "listeners w1 = listeners w @ [(''MESSAGE_CREATE'', Command__normal_callback self)]"
    using le(9) assms(1,2) by simp
  have "subscriptions w1 self1 = [(''MESSAGE_CREATE'', Command__normal_callback self)]"
    unfolding subscriptions_append [OF ls le(1)]
    by (simp add: assms(3) Command__normal_callback_def)
  moreover have "http_log w1 = http_log w" using le(8) assms(2) by simp
  ultimately show ?thesis by simp
qed

theorem load_prefix_only_witness:
  "allow_prefix_cmd ping_cmd \<and> \<not> allow_slash_cmd ping_cmd
   \<and> Command_init ping_func None None None True False None world0 = (Inr ping_cmd, world_ping)
   \<and> subscriptions world_ping ping_cmd = []
   \<and> load ping_cmd world_ping = (Inr (), ping_loaded, world_ping_loaded)
   \<and> subscriptions world_ping_loaded ping_loaded = [(''MESSAGE_CREATE'', 1, PREFIX_CMD)]
   \<and> http_log world_ping_loaded = http_log world_ping"
proof -
  have subs: "subscriptions world_ping ping_cmd = []"
    by (simp add: subscriptions_def world_ping_fields)
  from load_prefix_only [OF ping_cmd_fields(4) ping_cmd_fields(5) subs ping_load]
  show ?thesis
    using subs ping_load ping_cmd_init
    by (simp add: ping_cmd_fields Command__normal_callback_def)
qed

text \<open>
  C3. A command that is not subscribed is loaded, and the load succeeds; then it is
  unloaded, and the unload succeeds (as it does when the remote accepts the deletions,
  lemma \<open>unload_after_load_returns\<close>). Afterwards the command has no subscription, its
  loaded flag is false, and the unload has issued, in order, one deletion request for each
  handle that the load recorded (one per allowed guild when the slash path is allowed, none
  otherwise).
\<close>

theorem load_then_unload:
  assumes "subscriptions w self = []"
      and "application_data w = Some app"
      and "load self w = (Inr (), self1, w1)"
      and "unload self1 w1 = (Inr (), self2, w2)"
  shows "subscriptions w2 self2 = []
       \<and> loaded self1 = True \<and> loaded self2 = False
       \<and> http_log w2 = http_log w1 @
           (if allow_slash_cmd self
            then map (\<lambda>h. DeleteGuildApplicationCommand app (fst h) (acd_id (snd h)))
                   (case list_of_application_command_data self1 of None \<Rightarrow> [] | Some l \<Rightarrow> l)
            else [])
       \<and> (allow_slash_cmd self \<longrightarrow>
            (\<exists>l. list_of_application_command_data self1 = Some l \<and>
                 map fst l = map fst (guilds_allowed_guilds w)))"
proof -
  note le = load_effects [OF assms(3)]
  have app1: "application_data w1 = Some app" using le(5) assms(2) by simp
  have ls: "listeners w1 = listeners w @
             ((if allow_slash_cmd self then [(''INTERACTION_CREATE'', Command__slash_callback self)]
              else []) @
             (if allow_prefix_cmd self then [(''MESSAGE_CREATE'', Command__normal_callback self)]
              else []))"
    using le(10) by simp
  have "length (subscriptions w1 self1) =
          (if allow_slash_cmd self then 1 else 0) + (if allow_prefix_cmd self then 1 else 0)"
    unfolding subscriptions_append [OF ls le(1)]
    by (simp add: assms(1) Command__slash_callback_def Command__normal_callback_def)
  moreover note unload_effects(1) [OF assms(4)]
  ultimately have "length (subscriptions w2 self2) = 0"
    using le(3) le(4) by (simp split: if_splits)
  then have "subscriptions w2 self2 = []" by simp
  moreover have "loaded self1 = True" using le(12) by simp
  moreover have "loaded self2 = False" by (rule unload_effects(2) [OF assms(4)])
  moreover have "http_log w2 = http_log w1 @
           (if allow_slash_cmd self
            then map (\<lambda>h. DeleteGuildApplicationCommand app (fst h) (acd_id (snd h)))
                   (case list_of_application_command_data self1 of None \<Rightarrow> [] | Some l \<Rightarrow> l)
            else [])"
    using unload_effects(3) [OF assms(4) app1] le(3) by simp
  moreover have "allow_slash_cmd self \<longrightarrow>
            (\<exists>l. list_of_application_command_data self1 = Some l \<and>
                 map fst l = map fst (guilds_allowed_guilds w))"
    using le(11) by simp
  ultimately show ?thesis by blast
qed

theorem load_then_unload_witness:
  "subscriptions world_hello hello_cmd = []
   \<and> application_data world_hello = Some ''app''
   \<and> load hello_cmd world_hello = (Inr (), hello_loaded, world_hello_loaded)
   \<and> fst (unload hello_loaded world_hello_loaded) = Inr ()
   \<and> subscriptions (snd (snd (unload hello_loaded world_hello_loaded)))
         (fst (snd (unload hello_loaded world_hello_loaded))) = []
   \<and> loaded hello_loaded
   \<and> \<not> loaded (fst (snd (unload hello_loaded world_hello_loaded)))
   \<and> list_of_application_command_data hello_loaded = Some [(''111'', \<lparr> acd_id = ''111/hello'' \<rparr>)]
   \<and> http_log (snd (snd (unload hello_loaded world_hello_loaded))) =
        http_log world_hello_loaded @ [DeleteGuildApplicationCommand ''app'' ''111'' ''111/hello'']"
proof -
  have subs: "subscriptions world_hello hello_cmd = []"
    by (simp add: subscriptions_def world_hello_fields)
  have app: "application_data world_hello = Some ''app''"
    by (simp add: world_hello_fields)
  have handles: "list_of_application_command_data hello_loaded =
      Some [(''111'', \<lparr> acd_id = ''111/hello'' \<rparr>)]"
    by (simp add: hello_loaded_def)
  from load_then_unload [OF subs app hello_load hello_unload]
  show ?thesis
    using subs app hello_load handles
    by (simp add: hello_unload hello_cmd_fields)
qed

text \<open>
  C9. A command that allows the slash path and whose handle list is still \<open>None\<close>
  (\<open>__init__\<close> sets it so, lemma \<open>Command_init_no_handles\<close>, and only a completed
  \<open>create_slash\<close> replaces it, lemma \<open>create_slash_failure_keeps_command\<close>) cannot be
  unloaded or deleted: both raise \<open>TypeError\<close> and change nothing.
\<close>

theorem unload_before_load_raises:
  assumes "allow_slash_cmd self" and "list_of_application_command_data self = None"
  shows "unload self w = (Inl TypeError, self, w) \<and> delete self w = (Inl TypeError, self, w)"
  using assms by (simp add: unload_def delete_def remove_slash_def)

theorem unload_before_load_raises_witness:
  "Command_init hello_func None None None True True None world0 = (Inr hello_cmd, world_hello)
   \<and> allow_slash_cmd hello_cmd \<and> list_of_application_command_data hello_cmd = None
   \<and> unload hello_cmd world_hello = (Inl TypeError, hello_cmd, world_hello)
   \<and> delete hello_cmd world_hello = (Inl TypeError, hello_cmd, world_hello)"
  using unload_before_load_raises [OF hello_cmd_fields(6) hello_cmd_fields(8), of world_hello]
    hello_cmd_init hello_cmd_fields(6) hello_cmd_fields(8)
  by simp

section \<open>Delete\<close>

text \<open>
  C6, as the code has it. \<open>delete\<close> unloads first and passes on an error of the unload.
  After a successful unload it removes the first pair \<open>(name, self)\<close> from
  \<open>commands_cache\<close>; when the cache holds no such pair it raises \<open>ValueError\<close>, with the
  command unloaded and the cache as it was.
\<close>

theorem delete_unload_then_remove:
  assumes "unload self w = (r, self1, w1)"
  shows "delete self w =
     (case r of
        Inl e \<Rightarrow> (Inl e, self1, w1)
      | Inr u \<Rightarrow>
          if (name self, obj_id self) \<in> set (commands_cache w)
          then (Inr (), self1,
                w1\<lparr> commands_cache := remove1 (name self, obj_id self) (commands_cache w) \<rparr>)
          else (Inl ValueError, self1, w1))"
  using assms unload_frame [OF assms]
  by (cases r) (simp_all add: delete_def)

theorem delete_unload_then_remove_witness:
  "unload ping_loaded world_ping_loaded = (Inr (), ping_cmd, world_ping)
   \<and> delete ping_loaded world_ping_loaded =
       (Inr (), ping_cmd, world_ping\<lparr> commands_cache := [] \<rparr>)
   \<and> unload ping_loaded (world_ping_loaded\<lparr> commands_cache := [] \<rparr>) =
       (Inr (), ping_cmd, world_ping\<lparr> commands_cache := [] \<rparr>)
   \<and> delete ping_loaded (world_ping_loaded\<lparr> commands_cache := [] \<rparr>) =
       (Inl ValueError, ping_cmd, world_ping\<lparr> commands_cache := [] \<rparr>)
   \<and> unload hello_cmd world_hello = (Inl TypeError, hello_cmd, world_hello)
   \<and> delete hello_cmd world_hello = (Inl TypeError, hello_cmd, world_hello)"
proof -
  have h: "unload hello_cmd world_hello = (Inl TypeError, hello_cmd, world_hello)"
    by (simp add: unload_def remove_slash_def hello_cmd_fields)
  have a: "delete ping_loaded world_ping_loaded =
       (Inr (), ping_cmd, world_ping\<lparr> commands_cache := [] \<rparr>)"
    using delete_unload_then_remove [OF ping_unload]
    by (simp add: ping_loaded_fields world_ping_loaded_fields)
  have b: "delete ping_loaded (world_ping_loaded\<lparr> commands_cache := [] \<rparr>) =
       (Inl ValueError, ping_cmd, world_ping\<lparr> commands_cache := [] \<rparr>)"
    using delete_unload_then_remove [OF ping_unload_again]
    by simp
  have c: "delete hello_cmd world_hello = (Inl TypeError, hello_cmd, world_hello)"
    using delete_unload_then_remove [OF h] by simp
  from ping_unload a ping_unload_again b h c show ?thesis by (intro conjI)
qed

text \<open>
  The claim as stated fails: a command that is deleted, loaded again and deleted again is
  no longer in the cache at the second delete, which raises \<open>ValueError\<close>.
\<close>

theorem delete_silent_counterexample:
  "Command_init ping_func None None None True False None world0 = (Inr ping_cmd, world_ping)
   \<and> load ping_cmd world_ping = (Inr (), ping_loaded, world_ping_loaded)
   \<and> delete ping_loaded world_ping_loaded =
       (Inr (), ping_cmd, world_ping\<lparr> commands_cache := [] \<rparr>)
   \<and> load ping_cmd (world_ping\<lparr> commands_cache := [] \<rparr>) =
       (Inr (), ping_loaded, world_ping_loaded\<lparr> commands_cache := [] \<rparr>)
   \<and> (name ping_loaded, obj_id ping_loaded) \<notin>
       set (commands_cache (world_ping_loaded\<lparr> commands_cache := [] \<rparr>))
   \<and> fst (delete ping_loaded (world_ping_loaded\<lparr> commands_cache := [] \<rparr>)) = Inl ValueError"
  using ping_cmd_init ping_load ping_delete ping_load_again ping_delete_again
  by (simp add: ping_loaded_fields)

text \<open>
  C5, as the code has it. When the names in \<open>commands_cache\<close> are pairwise distinct and
  \<open>delete\<close> completes, a linear lookup of the command's name in the cache, which
  returns the first pair with that name, finds nothing.
\<close>

theorem delete_then_lookup:
  assumes "delete self w = (Inr (), self1, w1)"
      and "distinct (map fst (commands_cache w))"
  shows "find (\<lambda>entry. fst entry = name self) (commands_cache w1) = None"
  using delete_success [OF assms(1)] assms(2)
  by (simp add: find_remove1_distinct)

theorem delete_then_lookup_witness:
  "delete ping_loaded world_ping_loaded = (Inr (), ping_cmd, world_ping\<lparr> commands_cache := [] \<rparr>)
   \<and> distinct (map fst (commands_cache world_ping_loaded))
   \<and> find (\<lambda>entry. fst entry = name ping_loaded)
         (commands_cache (world_ping\<lparr> commands_cache := [] \<rparr>)) = None"
proof -
  have d: "distinct (map fst (commands_cache world_ping_loaded))"
    by (simp add: world_ping_loaded_fields)
  from delete_then_lookup [OF ping_delete d] ping_delete d show ?thesis by (intro conjI)
qed

text \<open>
  The claim as stated fails when two commands share a name: deleting the first leaves the
  second, and the lookup finds it.
\<close>

theorem delete_then_lookup_counterexample:
  "Command_init ping_func None None None True False None world0 = (Inr ping_cmd, world_ping)
   \<and> Command_init ping_func None None None True False None world_ping = (Inr ping_twin, world_twins)
   \<and> load ping_cmd world_twins =
       (Inr (), ping_loaded, world_twins\<lparr> listeners := [(''MESSAGE_CREATE'', 1, PREFIX_CMD)] \<rparr>)
   \<and> (name ping_loaded, obj_id ping_loaded) \<in> set (commands_cache world_twins)
   \<and> fst (delete ping_loaded
            (world_twins\<lparr> listeners := [(''MESSAGE_CREATE'', 1, PREFIX_CMD)] \<rparr>)) = Inr ()
   \<and> find (\<lambda>entry. fst entry = name ping_loaded)
        (commands_cache (snd (snd (delete ping_loaded
            (world_twins\<lparr> listeners := [(''MESSAGE_CREATE'', 1, PREFIX_CMD)] \<rparr>)))))
       = Some (''ping'', 2)"
  using ping_cmd_init ping_twin_init twins_load twins_delete
  by (simp add: ping_loaded_fields world_twins_fields)


end
